theory Spec2Isabelle
  imports Main "HOL-Library.Word"
begin

section \<open>Python values used by ZimManager\<close>

text \<open>
  A Python \<open>str\<close> is a sequence of Unicode code points and a \<open>bytes\<close> object a sequence of
  octets.  HOL's \<open>char\<close> has only 256 values, so a \<open>str\<close> is modelled as a list of code
  points (natural numbers); \<open>lit\<close> turns an ASCII literal of the source into that form.
\<close>

type_synonym codepoint = nat
type_synonym str = "codepoint list"
type_synonym byte = "8 word"
type_synonym bytes = "byte list"

definition lit :: "string \<Rightarrow> str" where
  "lit s = map of_char s"

text \<open>The exceptions that the modelled operations can raise.\<close>

datatype error =
    TypeError
  | KeyError
  | ValueError
  | UnicodeDecodeError
  | PermissionError
  | FileNotFoundError
  | OSError
  | RuntimeError

text \<open>\<open>s.startswith(p)\<close> and \<open>s.endswith(p)\<close> for two strings.\<close>

definition startswith :: "'a list \<Rightarrow> 'a list \<Rightarrow> bool" where
  "startswith s p = (take (length p) s = p)"

definition endswith :: "'a list \<Rightarrow> 'a list \<Rightarrow> bool" where
  "endswith s p = (length p \<le> length s \<and> drop (length s - length p) s = p)"

text \<open>
  \<open>s.startswith(x)\<close> where \<open>x\<close> may be \<open>None\<close>: Python raises \<open>TypeError\<close>
  (the argument must be a \<open>str\<close> or a tuple of \<open>str\<close>).
\<close>

definition py_startswith :: "str \<Rightarrow> str option \<Rightarrow> error + bool" where
  "py_startswith s x = (case x of None \<Rightarrow> Inl TypeError | Some p \<Rightarrow> Inr (startswith s p))"

text \<open>\<open>sub in s\<close> for two strings: \<open>sub\<close> occurs at some position of \<open>s\<close>.\<close>

fun py_in :: "'a list \<Rightarrow> 'a list \<Rightarrow> bool" where
  "py_in sub [] = (sub = [])"
| "py_in sub (c # cs) = (startswith (c # cs) sub \<or> py_in sub cs)"

text \<open>\<open>s.split('/')[-1]\<close>: the part of \<open>s\<close> after its last \<open>/\<close>, all of \<open>s\<close> when it has none.\<close>

definition split_last :: "str \<Rightarrow> str" where
  "split_last s = rev (takeWhile (\<lambda>c. c \<noteq> 0x2F) (rev s))"

section \<open>Mimetype resolution\<close>

text \<open>\<open>ZimManager._determine_mimetype\<close>, the read-side resolver (an if/elif chain).\<close>

definition determine_mimetype :: "str \<Rightarrow> str" where
  "determine_mimetype path =
    (if startswith path (lit ''A/'') then lit ''text/html''
     else if endswith path (lit ''.html'') \<or> endswith path (lit ''.htm'') then lit ''text/html''
     else if endswith path (lit ''.png'') then lit ''image/png''
     else if endswith path (lit ''.jpg'') \<or> endswith path (lit ''.jpeg'') then lit ''image/jpeg''
     else if endswith path (lit ''.css'') then lit ''text/css''
     else if endswith path (lit ''.js'') then lit ''application/javascript''
     else if endswith path (lit ''.pdf'') then lit ''application/pdf''
     else if endswith path (lit ''.zip'') then lit ''application/zip''
     else if endswith path (lit ''.mp4'') then lit ''video/mp4''
     else if endswith path (lit ''.webm'') then lit ''video/webm''
     else if endswith path (lit ''.ogg'') then lit ''video/ogg''
     else lit ''application/octet-stream'')"

text \<open>\<open>ZimManager.MyItem.get_mimetype\<close>, the write-side resolver, applied to \<open>self._path\<close>.\<close>

definition get_mimetype :: "str \<Rightarrow> str" where
  "get_mimetype path =
    (if endswith path (lit ''.html'') \<or> endswith path (lit ''.htm'') then lit ''text/html''
     else if endswith path (lit ''.png'') then lit ''image/png''
     else if endswith path (lit ''.jpg'') \<or> endswith path (lit ''.jpeg'') then lit ''image/jpeg''
     else if endswith path (lit ''.css'') then lit ''text/css''
     else if endswith path (lit ''.js'') then lit ''application/javascript''
     else lit ''application/octet-stream'')"

text \<open>
  The rule table as the specification words it: an ordered list of rules, each a set of
  alternative path tests with the mimetype it yields; the first rule with a passing test
  wins and \<open>application/octet-stream\<close> is the default.
\<close>

datatype path_test = Prefix str | Suffix str

fun passes :: "str \<Rightarrow> path_test \<Rightarrow> bool" where
  "passes path (Prefix p) = startswith path p"
| "passes path (Suffix p) = endswith path p"

type_synonym rule = "path_test list \<times> str"

definition rule_matches :: "str \<Rightarrow> rule \<Rightarrow> bool" where
  "rule_matches path r = list_ex (passes path) (fst r)"

definition first_match :: "rule list \<Rightarrow> str \<Rightarrow> str" where
  "first_match rules path =
    (case find (rule_matches path) rules of
       None \<Rightarrow> lit ''application/octet-stream''
     | Some r \<Rightarrow> snd r)"

definition write_rules :: "rule list" where
  "write_rules =
    [([Suffix (lit ''.html''), Suffix (lit ''.htm'')], lit ''text/html''),
     ([Suffix (lit ''.png'')], lit ''image/png''),
     ([Suffix (lit ''.jpg''), Suffix (lit ''.jpeg'')], lit ''image/jpeg''),
     ([Suffix (lit ''.css'')], lit ''text/css''),
     ([Suffix (lit ''.js'')], lit ''application/javascript'')]"

definition read_rules :: "rule list" where
  "read_rules =
    ([Prefix (lit ''A/'')], lit ''text/html'') # write_rules @
    [([Suffix (lit ''.pdf'')], lit ''application/pdf''),
     ([Suffix (lit ''.zip'')], lit ''application/zip''),
     ([Suffix (lit ''.mp4'')], lit ''video/mp4''),
     ([Suffix (lit ''.webm'')], lit ''video/webm''),
     ([Suffix (lit ''.ogg'')], lit ''video/ogg'')]"

section \<open>Filename sanitisation\<close>

text \<open>
  \<open>ZimManager._sanitize_filename\<close>: \<open>re.sub(r'[<>:"/\\|?*]', '_', filename)\<close>.  The pattern
  is a character class, so the substitution replaces, one by one, every character of the
  class by an underscore.  The class holds the nine characters
  \<open><\<close> \<open>>\<close> \<open>:\<close> \<open>"\<close> \<open>/\<close> \<open>\\<close> \<open>|\<close> \<open>?\<close> \<open>*\<close> (code points 60, 62, 58, 34, 47, 92, 124, 63, 42).
\<close>

definition unsafe_chars :: "codepoint list" where
  "unsafe_chars = [0x3C, 0x3E, 0x3A, 0x22, 0x2F, 0x5C, 0x7C, 0x3F, 0x2A]"

definition sanitize_filename :: "str \<Rightarrow> str" where
  "sanitize_filename filename =
     map (\<lambda>c. if c \<in> set unsafe_chars then 0x5F else c) filename"

section \<open>Case conversion and trimming\<close>

text \<open>
  \<open>str.upper()\<close> maps every code point through Unicode's full upper-case mapping (one code
  point may become several) and concatenates the results.  The Unicode table is not part of
  the program; it is the parameter \<open>toupper\<close>.  \<open>ascii_toupper\<close> is that table on the code
  points below 128 (the letters a-z go to A-Z, everything else stays), used where a
  concrete ASCII input is evaluated.
\<close>

definition py_upper :: "(codepoint \<Rightarrow> str) \<Rightarrow> str \<Rightarrow> str" where
  "py_upper toupper s = concat (map toupper s)"

definition ascii_toupper :: "codepoint \<Rightarrow> str" where
  "ascii_toupper c = (if 0x61 \<le> c \<and> c \<le> 0x7A then [c - 0x20] else [c])"

text \<open>
  \<open>str.strip()\<close> removes leading and trailing whitespace, the code points for which
  \<open>str.isspace\<close> holds.
\<close>

definition py_isspace :: "codepoint \<Rightarrow> bool" where
  "py_isspace c =
    ((0x09 \<le> c \<and> c \<le> 0x0D) \<or> (0x1C \<le> c \<and> c \<le> 0x20) \<or> c = 0x85 \<or> c = 0xA0 \<or>
     c = 0x1680 \<or> (0x2000 \<le> c \<and> c \<le> 0x200A) \<or> c = 0x2028 \<or> c = 0x2029 \<or>
     c = 0x202F \<or> c = 0x205F \<or> c = 0x3000)"

definition py_strip :: "str \<Rightarrow> str" where
  "py_strip s = rev (dropWhile py_isspace (rev (dropWhile py_isspace s)))"

section \<open>Archives and namespaces\<close>

text \<open>
  What the reader sees of an entry: \<open>entry.path\<close>, \<open>entry.title\<close> and the bytes of
  \<open>entry.get_item().content\<close>.  An open archive is the sequence of its entries:
  \<open>entry_count\<close> is its length and \<open>_get_entry_by_id(i)\<close> its \<open>i\<close>-th element, so a loop
  \<open>for i in range(self.zim.entry_count)\<close> visits the list in order.
\<close>

record entry =
  path :: str
  title :: str
  content :: bytes

type_synonym archive = "entry list"

text \<open>
  \<open>Archive.get_entry_by_path\<close> of libzim, for an archive in the new namespace scheme (the
  scheme of every archive that libzim 7 or later writes, where \<open>entry.path\<close> is the path
  that is looked up).  libzim first looks for the entry with the given path.  When there
  is none it reads the path as a path of the old scheme, \<open><namespace character>/<path>\<close>
  with an optional leading \<open>/\<close>, and looks for the entry with the part after the
  namespace; \<open>parse_long_path\<close> yields that part, or \<open>None\<close> when the path is not of that
  form (the namespace is a single byte other than \<open>/\<close>, followed by \<open>/\<close> or by the end of
  the path).  When both lookups fail, libzim raises \<open>KeyError\<close>.  It never returns
  \<open>None\<close>, and an \<open>Entry\<close> object is always truthy.  The result type keeps all three
  outcomes a caller could test for: an exception, a falsy value, an entry.
\<close>

definition parse_long_path :: "str \<Rightarrow> str option" where
  "parse_long_path p =
    (case (case p of [] \<Rightarrow> [] | c # cs \<Rightarrow> if c = 0x2F then cs else c # cs) of
       [] \<Rightarrow> None
     | ns # rest \<Rightarrow>
         if ns = 0x2F \<or> 0x80 \<le> ns then None
         else (case rest of
                 [] \<Rightarrow> Some []
               | c # short \<Rightarrow> if c = 0x2F then Some short else None))"

definition get_entry_by_path :: "archive \<Rightarrow> str \<Rightarrow> error + entry option" where
  "get_entry_by_path zim p =
    (case find (\<lambda>e. path e = p) zim of
       Some e \<Rightarrow> Inr (Some e)
     | None \<Rightarrow>
         (case parse_long_path p of
            None \<Rightarrow> Inl KeyError
          | Some short \<Rightarrow>
              (case find (\<lambda>e. path e = short) zim of
                 Some e \<Rightarrow> Inr (Some e)
               | None \<Rightarrow> Inl KeyError)))"

text \<open>The class attribute \<open>namespace_descriptions\<close>.\<close>

definition namespace_descriptions :: "(str \<times> str) list" where
  "namespace_descriptions =
    [(lit ''A'', lit ''Article''),
     (lit ''B'', lit ''Deleted articles''),
     (lit ''C'', lit ''Category entries''),
     (lit ''I'', lit ''Images''),
     (lit ''M'', lit ''Metadata''),
     (lit ''S'', lit ''Stylesheets''),
     (lit ''F'', lit ''Other files''),
     (lit ''V'', lit ''Videos''),
     (lit ''X'', lit ''Special entries'')]"

text \<open>\<open>get_namespace_description\<close>: \<open>dict.get\<close> with the default \<open>f"Unknown ({namespace})"\<close>.\<close>

definition get_namespace_description :: "str \<Rightarrow> str" where
  "get_namespace_description namespace =
    (case map_of namespace_descriptions namespace of
       Some d \<Rightarrow> d
     | None \<Rightarrow> lit ''Unknown ('' @ namespace @ lit '')'')"

text \<open>
  \<open>view_all_namespaces\<close>: one pass over the entries; the first character of a non-empty
  path that is no key of \<open>namespace_descriptions\<close> is recorded as \<open>Unknown_<char>\<close>.
\<close>

definition view_all_namespaces :: "archive \<Rightarrow> (str \<rightharpoonup> str)" where
  "view_all_namespaces zim =
    fold (\<lambda>e namespaces.
            case path e of
              [] \<Rightarrow> namespaces
            | c # _ \<Rightarrow>
                if map_of namespace_descriptions [c] = None
                then namespaces([c] \<mapsto> lit ''Unknown_'' @ [c])
                else namespaces)
         zim Map.empty"

text \<open>
  \<open>get_namespaces\<close>: the dictionary
  \<open>{**namespace_descriptions, **namespaces, "ALL": ..., "UNKNOWN": ...}\<close>; later items win.
\<close>

definition get_namespaces :: "archive \<Rightarrow> (str \<rightharpoonup> str)" where
  "get_namespaces zim =
    (map_of namespace_descriptions ++ view_all_namespaces zim)
      (lit ''ALL'' \<mapsto> lit ''Select all namespaces'',
       lit ''UNKNOWN'' \<mapsto> lit ''Select all unknown namespaces'')"

text \<open>
  \<open>set_namespace\<close>.  The value returned is also stored in \<open>self.selected_namespace\<close>, an
  attribute no other method reads; \<open>None\<close> is Python's \<open>None\<close>, and the \<open>raise ValueError\<close>
  is the \<open>Inl\<close> branch.
\<close>

definition set_namespace :: "(codepoint \<Rightarrow> str) \<Rightarrow> archive \<Rightarrow> str \<Rightarrow> error + str option" where
  "set_namespace toupper zim selected_ns =
    (let namespaces = get_namespaces zim;
         selected_ns_upper = py_strip (py_upper toupper selected_ns)
     in if selected_ns_upper = lit ''ALL'' then Inr None
        else if selected_ns_upper = lit ''UNKNOWN'' then Inr (Some (lit ''UNKNOWN''))
        else (case namespaces selected_ns_upper of
                Some d \<Rightarrow> Inr (Some d)
              | None \<Rightarrow> Inl ValueError))"

section \<open>Decoding UTF-8\<close>

text \<open>
  \<open>bytes.decode('utf-8', errors=...)\<close>, after CPython's decoder.  \<open>utf8_next ch rest\<close> reads
  the sequence that starts with the byte \<open>ch\<close>: it yields the code point and the number
  of further bytes the sequence takes, or \<open>None\<close> and the number of further bytes that
  belong to the malformed sequence (the decoder reports the positions
  \<open>start\<close> to \<open>end\<close> of the error and the error handler resumes at \<open>end\<close>).
\<close>

datatype errors = Strict | Ignore | Replace

definition is_continuation :: "byte \<Rightarrow> bool" where
  "is_continuation b = (0x80 \<le> b \<and> b < 0xC0)"

definition utf8_next :: "byte \<Rightarrow> bytes \<Rightarrow> codepoint option \<times> nat" where
  "utf8_next ch rest =
    (if ch < 0x80 then (Some (unat ch), 0)
     else if ch < 0xE0 then
       (if ch < 0xC2 then (None, 0)
        else case rest of
               [] \<Rightarrow> (None, 0)
             | ch2 # _ \<Rightarrow>
                 if \<not> is_continuation ch2 then (None, 0)
                 else (Some (unat ch * 64 + unat ch2 - (0xC0 * 64 + 0x80)), 1))
     else if ch < 0xF0 then
       (case rest of
          [] \<Rightarrow> (None, 0)
        | [ch2] \<Rightarrow>
            if \<not> is_continuation ch2 \<or> (if ch2 < 0xA0 then ch = 0xE0 else ch = 0xED)
            then (None, 0) else (None, 1)
        | ch2 # ch3 # _ \<Rightarrow>
            if \<not> is_continuation ch2 then (None, 0)
            else if ch = 0xE0 \<and> ch2 < 0xA0 then (None, 0)
            else if ch = 0xED \<and> 0xA0 \<le> ch2 then (None, 0)
            else if \<not> is_continuation ch3 then (None, 1)
            else (Some (unat ch * 4096 + unat ch2 * 64 + unat ch3
                        - (0xE0 * 4096 + 0x80 * 64 + 0x80)), 2))
     else if ch < 0xF5 then
       (case rest of
          [] \<Rightarrow> (None, 0)
        | [ch2] \<Rightarrow>
            if \<not> is_continuation ch2 \<or> (if ch2 < 0x90 then ch = 0xF0 else ch = 0xF4)
            then (None, 0) else (None, 1)
        | [ch2, ch3] \<Rightarrow>
            if \<not> is_continuation ch2 \<or> (if ch2 < 0x90 then ch = 0xF0 else ch = 0xF4)
            then (None, 0)
            else if \<not> is_continuation ch3 then (None, 1) else (None, 2)
        | ch2 # ch3 # ch4 # _ \<Rightarrow>
            if \<not> is_continuation ch2 then (None, 0)
            else if ch = 0xF0 \<and> ch2 < 0x90 then (None, 0)
            else if ch = 0xF4 \<and> 0x90 \<le> ch2 then (None, 0)
            else if \<not> is_continuation ch3 then (None, 1)
            else if \<not> is_continuation ch4 then (None, 2)
            else (Some (unat ch * 262144 + unat ch2 * 4096 + unat ch3 * 64 + unat ch4
                        - (0xF0 * 262144 + 0x80 * 4096 + 0x80 * 64 + 0x80)), 3))
     else (None, 0))"

text \<open>
  The decoder proper.  At a malformed sequence \<open>errors='strict'\<close> raises,
  \<open>errors='ignore'\<close> resumes after it and \<open>errors='replace'\<close> puts U+FFFD in its place.
\<close>

fun decode_utf8 :: "errors \<Rightarrow> bytes \<Rightarrow> error + str" where
  "decode_utf8 h [] = Inr []"
| "decode_utf8 h (ch # rest) =
    (case utf8_next ch rest of
       (Some cp, n) \<Rightarrow>
         (case decode_utf8 h (drop n rest) of Inl e \<Rightarrow> Inl e | Inr s \<Rightarrow> Inr (cp # s))
     | (None, n) \<Rightarrow>
         (case h of
            Strict \<Rightarrow> Inl UnicodeDecodeError
          | Ignore \<Rightarrow> decode_utf8 h (drop n rest)
          | Replace \<Rightarrow>
              (case decode_utf8 h (drop n rest) of
                 Inl e \<Rightarrow> Inl e
               | Inr s \<Rightarrow> Inr (0xFFFD # s))))"

text \<open>
  The sequences the decoder reads, in order: \<open>Some cp\<close> for a well-formed one, \<open>None\<close> for a
  malformed one.
\<close>

fun utf8_sequences :: "bytes \<Rightarrow> codepoint option list" where
  "utf8_sequences [] = []"
| "utf8_sequences (ch # rest) =
    (case utf8_next ch rest of (r, n) \<Rightarrow> r # utf8_sequences (drop n rest))"

section \<open>The two regular expressions\<close>

text \<open>
  \<open>re.search(r"<body.*?>(.*?)</body>", article, re.S)\<close> and its \<open>group(1)\<close>.  The matcher
  tries the start positions from left to right; the two lazy \<open>.*?\<close> try the shortest
  extension first and, under \<open>re.S\<close>, step over any character.  The three functions follow
  that search: \<open>lazy_body\<close> is \<open>(.*?)</body>\<close> and returns the group, \<open>lazy_open\<close> is
  \<open>.*?>(.*?)</body>\<close>, and \<open>body_search\<close> is the search for the whole pattern
  (\<open>None\<close> when \<open>re.search\<close> returns \<open>None\<close>).
\<close>

fun lazy_body :: "str \<Rightarrow> str option" where
  "lazy_body [] = None"
| "lazy_body (c # cs) =
    (if startswith (c # cs) (lit ''</body>'') then Some []
     else map_option ((#) c) (lazy_body cs))"

fun lazy_open :: "str \<Rightarrow> str option" where
  "lazy_open [] = None"
| "lazy_open (c # cs) =
    (case (if c = 0x3E then lazy_body cs else None) of
       Some g \<Rightarrow> Some g
     | None \<Rightarrow> lazy_open cs)"

fun body_search :: "str \<Rightarrow> str option" where
  "body_search [] = None"
| "body_search (c # cs) =
    (case (if startswith (c # cs) (lit ''<body'') then lazy_open (drop 5 (c # cs)) else None) of
       Some g \<Rightarrow> Some g
     | None \<Rightarrow> body_search cs)"

text \<open>
  \<open>re.sub('<[^<]+?>', '', s)\<close>.  A match is a \<open><\<close>, then one character other than \<open><\<close>,
  then, lazily, further characters other than \<open><\<close> up to the first \<open>>\<close>.
  \<open>tag_tail\<close> reads what follows the first character of the class and counts the characters
  it takes, the closing \<open>>\<close> included; \<open>tag_length\<close> is given what follows a \<open><\<close> and counts
  the characters of the match after that \<open><\<close>.  \<open>strip_tags\<close> deletes the matches from left
  to right and keeps every other character.
\<close>

fun tag_tail :: "str \<Rightarrow> nat option" where
  "tag_tail [] = None"
| "tag_tail (c # cs) =
    (if c = 0x3E then Some 1
     else if c = 0x3C then None
     else map_option Suc (tag_tail cs))"

fun tag_length :: "str \<Rightarrow> nat option" where
  "tag_length [] = None"
| "tag_length (c # cs) = (if c = 0x3C then None else map_option Suc (tag_tail cs))"

fun strip_tags :: "str \<Rightarrow> str" where
  "strip_tags [] = []"
| "strip_tags (c # cs) =
    (if c = 0x3C then
       (case tag_length cs of
          Some n \<Rightarrow> strip_tags (drop n cs)
        | None \<Rightarrow> c # strip_tags cs)
     else c # strip_tags cs)"

section \<open>Reading operations\<close>

text \<open>
  A \<open>for\<close> loop whose body may raise.  The body yields the items it appends (to the output
  file or to a result list); the loop yields everything appended before it ended, and the
  exception that ended it, if any.
\<close>

fun for_each :: "('a \<Rightarrow> error + 'b list) \<Rightarrow> 'a list \<Rightarrow> 'b list \<times> error option" where
  "for_each body [] = ([], None)"
| "for_each body (x # xs) =
    (case body x of
       Inl e \<Rightarrow> ([], Some e)
     | Inr ys \<Rightarrow> (case for_each body xs of (zs, r) \<Rightarrow> (ys @ zs, r)))"

text \<open>A function that returns its list, or raises.\<close>

definition returning :: "'b list \<times> error option \<Rightarrow> error + 'b list" where
  "returning r = (case r of (ys, None) \<Rightarrow> Inr ys | (ys, Some e) \<Rightarrow> Inl e)"

definition newlines :: str where
  "newlines = [0x0A, 0x0A]"

text \<open>
  \<open>extract_all_text\<close>: the body of its loop, and the function.  The result is the text
  written to \<open>output_file\<close> (opened, and so emptied, before the loop) and the exception
  that left the function, if any.  The output file is taken to be open: the model starts
  where \<open>open(output_file, 'w')\<close> has returned and covers the loop, and the same holds of
  \<open>save_selected_articles\<close> below.
\<close>

definition extract_all_text_entry :: "str option \<Rightarrow> entry \<Rightarrow> error + str" where
  "extract_all_text_entry namespace e =
    (case py_startswith (path e) namespace of
       Inl err \<Rightarrow> Inl err
     | Inr False \<Rightarrow> Inr []
     | Inr True \<Rightarrow>
         (case decode_utf8 Ignore (content e) of
            Inl err \<Rightarrow> Inl err
          | Inr article \<Rightarrow>
              (case body_search article of
                 Some g \<Rightarrow> Inr (strip_tags g @ newlines)
               | None \<Rightarrow> Inr [])))"

definition extract_all_text :: "archive \<Rightarrow> str option \<Rightarrow> str \<times> error option" where
  "extract_all_text zim namespace = for_each (extract_all_text_entry namespace) zim"

text \<open>\<open>extract_titles\<close> and \<open>list_all_paths\<close>.\<close>

definition extract_titles_entry :: "str option \<Rightarrow> entry \<Rightarrow> error + (str \<times> str) list" where
  "extract_titles_entry namespace e =
    (case py_startswith (path e) namespace of
       Inl err \<Rightarrow> Inl err
     | Inr b \<Rightarrow> Inr (if b then [(path e, title e)] else []))"

definition extract_titles :: "archive \<Rightarrow> str option \<Rightarrow> error + (str \<times> str) list" where
  "extract_titles zim namespace = returning (for_each (extract_titles_entry namespace) zim)"

definition list_all_paths_entry :: "str option \<Rightarrow> entry \<Rightarrow> error + str list" where
  "list_all_paths_entry namespace e =
    (if namespace = None then Inr [path e]
     else case py_startswith (path e) namespace of
            Inl err \<Rightarrow> Inl err
          | Inr b \<Rightarrow> Inr (if b then [path e] else []))"

definition list_all_paths :: "archive \<Rightarrow> str option \<Rightarrow> error + str list" where
  "list_all_paths zim namespace = returning (for_each (list_all_paths_entry namespace) zim)"

text \<open>
  \<open>save_selected_articles\<close>.  \<open>lookup\<close> stands for \<open>self.zim.get_entry_by_path\<close>; the source
  has no handler around the call, so an exception of the lookup leaves the function, and
  \<open>if entry:\<close> skips a falsy result.  The result is again the text written and the
  exception, if any.
\<close>

definition article_record :: "str \<Rightarrow> str \<Rightarrow> str" where
  "article_record ttl clean_text = lit ''Title: '' @ ttl @ newlines @ clean_text @ newlines"

definition save_selected_article :: "(str \<Rightarrow> error + entry option) \<Rightarrow> str \<Rightarrow> error + str" where
  "save_selected_article lookup selected_url =
    (case lookup selected_url of
       Inl err \<Rightarrow> Inl err
     | Inr None \<Rightarrow> Inr []
     | Inr (Some e) \<Rightarrow>
         (case decode_utf8 Ignore (content e) of
            Inl err \<Rightarrow> Inl err
          | Inr article \<Rightarrow>
              (case body_search article of
                 Some g \<Rightarrow> Inr (article_record (title e) (strip_tags g))
               | None \<Rightarrow> Inr (article_record (title e) (strip_tags article)))))"

definition save_selected_articles ::
  "(str \<Rightarrow> error + entry option) \<Rightarrow> str list \<Rightarrow> str \<times> error option" where
  "save_selected_articles lookup selected_urls =
     for_each (save_selected_article lookup) selected_urls"

section \<open>Bulk extraction\<close>

text \<open>
  A file written by \<open>extract_by_mimetype\<close>: its name below \<open>output_dir\<close> and what is
  written, bytes in binary mode or text in text mode.
\<close>

datatype payload = Binary bytes | Text str

record file_write =
  file_dir :: str
  file_name :: str
  file_payload :: payload

text \<open>
  What the file system decides.  Each of the calls \<open>mkdir\<close>, \<open>open\<close> and \<open>write\<close> can raise
  (an \<open>OSError\<close> for a name longer than the file system allows, a directory that cannot
  be written, a full disk), and the source catches none of it: \<open>mkdir_error\<close> is the
  outcome of \<open>Path(output_dir).mkdir\<close>, \<open>open_error\<close> that of creating the file of a given
  name in a given directory (\<open>file_path.parent.mkdir\<close> and \<open>open\<close>), \<open>write_error\<close> that of
  \<open>file.write\<close>; \<open>None\<close> is a call that goes through.
\<close>

record file_system =
  mkdir_error :: "str \<Rightarrow> error option"
  open_error :: "str \<Rightarrow> str \<Rightarrow> error option"
  write_error :: "file_write \<Rightarrow> error option"

text \<open>\<open>file.write(...)\<close> into the file just opened: the file is written, or the call raises.\<close>

definition write_file :: "file_system \<Rightarrow> file_write \<Rightarrow> error + file_write list" where
  "write_file fs w = (case write_error fs w of Some err \<Rightarrow> Inl err | None \<Rightarrow> Inr [w])"

text \<open>
  The body of the loop of \<open>extract_by_mimetype\<close>: the files written for one entry.
  An entry with an empty path is skipped.  In text mode the file is opened before the
  content is decoded.
\<close>

definition extract_entry ::
  "file_system \<Rightarrow> str \<Rightarrow> str option \<Rightarrow> str \<Rightarrow> entry \<Rightarrow> error + file_write list" where
  "extract_entry fs output_dir namespace mimetype e =
    (case path e of
       [] \<Rightarrow> Inr []
     | c # _ \<Rightarrow>
        (let item_mimetype = determine_mimetype (path e);
             entry_namespace = [c]
         in if ((namespace = None \<or> Some entry_namespace = namespace) \<or>
                (namespace = Some (lit ''UNKNOWN'') \<and>
                 startswith (get_namespace_description entry_namespace) (lit ''Unknown'')))
               \<and> startswith item_mimetype mimetype
            then
              (let file_extension = split_last item_mimetype;
                   sanitized_path = sanitize_filename (path e);
                   name = sanitized_path @ lit ''.'' @ file_extension
               in case open_error fs output_dir name of
                    Some err \<Rightarrow> Inl err
                  | None \<Rightarrow>
                      if list_ex (\<lambda>media. py_in media mimetype)
                           [lit ''image'', lit ''video'', lit ''application/octet-stream'']
                      then write_file fs \<lparr>file_dir = output_dir, file_name = name,
                                          file_payload = Binary (content e)\<rparr>
                      else (case decode_utf8 Ignore (content e) of
                              Inl err \<Rightarrow> Inl err
                            | Inr t \<Rightarrow>
                                write_file fs \<lparr>file_dir = output_dir, file_name = name,
                                               file_payload = Text t\<rparr>))
            else Inr []))"

text \<open>
  \<open>extract_by_mimetype\<close>: the output directory is made, then the loop runs.  The result is
  the list of the files written, in the order of writing, and the exception that left
  the function, if any.
\<close>

definition extract_by_mimetype ::
  "file_system \<Rightarrow> archive \<Rightarrow> str \<Rightarrow> str option \<Rightarrow> str \<Rightarrow> file_write list \<times> error option" where
  "extract_by_mimetype fs zim output_dir namespace mimetype =
    (case mkdir_error fs output_dir of
       Some err \<Rightarrow> ([], Some err)
     | None \<Rightarrow> for_each (extract_entry fs output_dir namespace mimetype) zim)"

section \<open>Building an archive\<close>

text \<open>
  An element of \<open>articles\<close> (a dictionary with the keys \<open>title\<close>, \<open>path\<close>, \<open>content\<close>) and the
  item the archive writer receives for it: \<open>MyItem(title, path, content)\<close> answers
  \<open>get_path\<close>, \<open>get_title\<close>, \<open>get_mimetype\<close>, \<open>get_contentprovider\<close> (a \<open>StringProvider\<close> of
  the content, as \<open>fpath\<close> is \<open>None\<close>) and \<open>get_hints\<close> (\<open>FRONT_ARTICLE: True\<close>).
\<close>

record article =
  article_title :: str
  article_path :: str
  article_content :: str

record zim_item =
  item_path :: str
  item_title :: str
  item_mimetype :: str
  item_content :: str
  front_article :: bool

definition MyItem :: "article \<Rightarrow> zim_item" where
  "MyItem a =
    \<lparr>item_path = article_path a, item_title = article_title a,
     item_mimetype = get_mimetype (article_path a), item_content = article_content a,
     front_article = True\<rparr>"

text \<open>The metadata added to every archive; \<open>name.title()\<close> capitalises the seven keys.\<close>

definition metadata :: "(str \<times> str) list" where
  "metadata =
    [(lit ''Creator'', lit ''python-libzim''),
     (lit ''Description'', lit ''Created in python''),
     (lit ''Name'', lit ''my-zim''),
     (lit ''Publisher'', lit ''You''),
     (lit ''Title'', lit ''Test ZIM''),
     (lit ''Language'', lit ''eng''),
     (lit ''Date'', lit ''2024-06-30'')]"

text \<open>
  The file system, as far as \<open>create_zim_file\<close> touches it.  A file holds plain data, a
  finished archive, or what an interrupted archive writer left behind.  The world also
  holds what the environment decides: \<open>faults\<close> lists the outcome of the calls that can
  fail (the archive writer, \<open>os.rename\<close>, \<open>shutil.move\<close>, \<open>os.remove\<close>), one per call and in
  the order of the calls, \<open>Some e\<close> for a call that raises \<open>e\<close> and \<open>None\<close> (or an exhausted
  list) for a call that goes through; \<open>partial_on_failure\<close> tells whether a failing archive
  writer leaves an unfinished file at its path.  \<open>trace\<close> records the calls made.
\<close>

datatype blob = Data bytes | Zim "zim_item list" str "(str \<times> str) list" | Unfinished

datatype call = Create str | Rename str str | Sleep nat | Move str str | Remove str

record world =
  files :: "str \<rightharpoonup> blob"
  faults :: "error option list"
  partial_on_failure :: bool
  trace :: "call list"

definition next_fault :: "world \<Rightarrow> error option" where
  "next_fault w = (case faults w of [] \<Rightarrow> None | f # _ \<Rightarrow> f)"

definition called :: "call \<Rightarrow> world \<Rightarrow> world" where
  "called c w = w\<lparr>faults := tl (faults w), trace := trace w @ [c]\<rparr>"

definition os_path_exists :: "str \<Rightarrow> world \<Rightarrow> bool" where
  "os_path_exists p w = (files w p \<noteq> None)"

definition os_rename :: "str \<Rightarrow> str \<Rightarrow> world \<Rightarrow> error option \<times> world" where
  "os_rename src dst w =
    (let w1 = called (Rename src dst) w
     in case next_fault w of
          Some e \<Rightarrow> (Some e, w1)
        | None \<Rightarrow>
            (case files w src of
               None \<Rightarrow> (Some FileNotFoundError, w1)
             | Some b \<Rightarrow> (None, w1\<lparr>files := (files w)(src := None, dst \<mapsto> b)\<rparr>)))"

definition shutil_move :: "str \<Rightarrow> str \<Rightarrow> world \<Rightarrow> error option \<times> world" where
  "shutil_move src dst w =
    (let w1 = called (Move src dst) w
     in case next_fault w of
          Some e \<Rightarrow> (Some e, w1)
        | None \<Rightarrow>
            (case files w src of
               None \<Rightarrow> (Some FileNotFoundError, w1)
             | Some b \<Rightarrow> (None, w1\<lparr>files := (files w)(src := None, dst \<mapsto> b)\<rparr>)))"

definition os_remove :: "str \<Rightarrow> world \<Rightarrow> error option \<times> world" where
  "os_remove p w =
    (let w1 = called (Remove p) w
     in case next_fault w of
          Some e \<Rightarrow> (Some e, w1)
        | None \<Rightarrow>
            (case files w p of
               None \<Rightarrow> (Some FileNotFoundError, w1)
             | Some b \<Rightarrow> (None, w1\<lparr>files := (files w)(p := None)\<rparr>)))"

definition time_sleep :: "nat \<Rightarrow> world \<Rightarrow> world" where
  "time_sleep n w = w\<lparr>trace := trace w @ [Sleep n]\<rparr>"

text \<open>
  Staging: the \<open>with Creator(temp_output_file)...\<close> block, which sets the main path, adds
  one item per article and the metadata, and finishes the archive when the block is left.
\<close>

definition stage :: "str \<Rightarrow> article list \<Rightarrow> str \<Rightarrow> world \<Rightarrow> error option \<times> world" where
  "stage temp_output_file articles main_article_path w =
    (let w1 = called (Create temp_output_file) w
     in case next_fault w of
          Some e \<Rightarrow>
            (Some e,
             if partial_on_failure w
             then w1\<lparr>files := (files w)(temp_output_file \<mapsto> Unfinished)\<rparr> else w1)
        | None \<Rightarrow>
            (None,
             w1\<lparr>files := (files w)(temp_output_file \<mapsto>
                     Zim (map MyItem articles) main_article_path metadata)\<rparr>))"

text \<open>
  The inner \<open>try\<close>: \<open>os.rename(output_file, backup_file)\<close>, and under
  \<open>except PermissionError\<close> a sleep of two seconds and the same call once more.
\<close>

definition rename_existing :: "str \<Rightarrow> str \<Rightarrow> world \<Rightarrow> error option \<times> world" where
  "rename_existing output_file backup_file w =
    (case os_rename output_file backup_file w of
       (Some e, w1) \<Rightarrow>
         if e = PermissionError
         then os_rename output_file backup_file (time_sleep 2 w1)
         else (Some e, w1)
     | (None, w1) \<Rightarrow> (None, w1))"

text \<open>The body of the outer \<open>try\<close>; the first exception ends it.\<close>

definition try_block :: "str \<Rightarrow> article list \<Rightarrow> str \<Rightarrow> world \<Rightarrow> error option \<times> world" where
  "try_block output_file articles main_article_path w =
    (let temp_output_file = output_file @ lit ''.tmp'';
         backup_file = output_file @ lit ''.backup''
     in case stage temp_output_file articles main_article_path w of
          (Some e, w1) \<Rightarrow> (Some e, w1)
        | (None, w1) \<Rightarrow>
            (case (if os_path_exists output_file w1
                   then rename_existing output_file backup_file w1 else (None, w1)) of
               (Some e, w2) \<Rightarrow> (Some e, w2)
             | (None, w2) \<Rightarrow>
                 (case shutil_move temp_output_file output_file w2 of
                    (Some e, w3) \<Rightarrow> (Some e, w3)
                  | (None, w3) \<Rightarrow>
                      if os_path_exists backup_file w3 then os_remove backup_file w3
                      else (None, w3))))"

text \<open>
  \<open>create_zim_file\<close>: the \<open>try\<close> block and its \<open>finally\<close>.  An exception raised inside
  \<open>finally\<close> replaces the one of the \<open>try\<close> block.  The result is the exception that
  leaves the function (\<open>None\<close> for a normal return) and the world afterwards.
\<close>

definition create_zim_file :: "str \<Rightarrow> article list \<Rightarrow> str \<Rightarrow> world \<Rightarrow> error option \<times> world" where
  "create_zim_file output_file articles main_article_path w =
    (let temp_output_file = output_file @ lit ''.tmp''
     in case try_block output_file articles main_article_path w of
          (r, w1) \<Rightarrow>
            if os_path_exists temp_output_file w1
            then (case os_remove temp_output_file w1 of
                    (Some e, w2) \<Rightarrow> (Some e, w2)
                  | (None, w2) \<Rightarrow> (r, w2))
            else (r, w1))"

section \<open>Vocabulary of the statements\<close>

text \<open>
  The three namespace selectors of the specification, the argument each one is passed as
  to \<open>extract_by_mimetype\<close>, and the entries each one is meant to select, given the
  namespace code of the entry (the first character of its path).
\<close>

datatype selector = NoFilter | Exact codepoint | UnknownFilter

fun selector_arg :: "selector \<Rightarrow> str option" where
  "selector_arg NoFilter = None"
| "selector_arg (Exact code) = Some [code]"
| "selector_arg UnknownFilter = Some (lit ''UNKNOWN'')"

fun selector_matches :: "selector \<Rightarrow> codepoint \<Rightarrow> bool" where
  "selector_matches NoFilter c = True"
| "selector_matches (Exact code) c = (c = code)"
| "selector_matches UnknownFilter c = (map_of namespace_descriptions [c] = None)"

text \<open>
  An entry matches a selector and a mimetype prefix when its path is not empty, the
  selector matches its namespace code and the mimetype resolved from its path starts with
  the prefix.
\<close>

definition entry_matches :: "selector \<Rightarrow> str \<Rightarrow> entry \<Rightarrow> bool" where
  "entry_matches sel mt e =
    (case path e of
       [] \<Rightarrow> False
     | c # _ \<Rightarrow> selector_matches sel c \<and> startswith (determine_mimetype (path e)) mt)"

text \<open>
  The same for any value of the namespace argument, with the test of the source: an
  argument that is none of the three selectors (a description, say) is compared with
  the namespace code like an exact selector.
\<close>

definition passes_filter :: "str option \<Rightarrow> str \<Rightarrow> entry \<Rightarrow> bool" where
  "passes_filter ns mt e =
    (case path e of
       [] \<Rightarrow> False
     | c # _ \<Rightarrow>
         (ns = None \<or> ns = Some [c] \<or>
          (ns = Some (lit ''UNKNOWN'') \<and> map_of namespace_descriptions [c] = None)) \<and>
         startswith (determine_mimetype (path e)) mt)"

text \<open>
  Decoding that discards: the code points of the well-formed sequences of the content, in
  order, and nothing for a malformed sequence.
\<close>

definition discarding :: "bytes \<Rightarrow> str" where
  "discarding bs =
     concat (map (\<lambda>r. case r of None \<Rightarrow> [] | Some cp \<Rightarrow> [cp]) (utf8_sequences bs))"

text \<open>
  The file that bulk extraction is to write for an entry: named by the sanitised path
  and the subtype of the mimetype, holding the bytes of the content when the mimetype
  prefix contains \<open>image\<close>, \<open>video\<close> or \<open>application/octet-stream\<close>, and otherwise the
  content decoded with the malformed sequences discarded.
\<close>

definition binary_mode :: "str \<Rightarrow> bool" where
  "binary_mode mt =
     (py_in (lit ''image'') mt \<or> py_in (lit ''video'') mt \<or>
      py_in (lit ''application/octet-stream'') mt)"

definition expected_file :: "str \<Rightarrow> str \<Rightarrow> entry \<Rightarrow> file_write" where
  "expected_file d mt e =
     \<lparr>file_dir = d,
      file_name = sanitize_filename (path e) @ lit ''.'' @ split_last (determine_mimetype (path e)),
      file_payload = (if binary_mode mt then Binary (content e) else Text (discarding (content e)))\<rparr>"

text \<open>
  The error, if any, with which the file system refuses a file (at \<open>open\<close> or at \<open>write\<close>),
  and a run that writes the files of a list in order until one is refused.
\<close>

definition refused :: "file_system \<Rightarrow> file_write \<Rightarrow> error option" where
  "refused fs w =
    (case open_error fs (file_dir w) (file_name w) of
       Some err \<Rightarrow> Some err
     | None \<Rightarrow> write_error fs w)"

fun until_refused :: "file_system \<Rightarrow> file_write list \<Rightarrow> file_write list \<times> error option" where
  "until_refused fs [] = ([], None)"
| "until_refused fs (w # ws) =
    (case refused fs w of
       Some err \<Rightarrow> ([], Some err)
     | None \<Rightarrow> (case until_refused fs ws of (written, r) \<Rightarrow> (w # written, r)))"

text \<open>The rename attempts and the pauses among the calls of a trace.\<close>

definition renames_and_sleeps :: "call list \<Rightarrow> call list" where
  "renames_and_sleeps t =
     filter (\<lambda>c. case c of Rename _ _ \<Rightarrow> True | Sleep _ \<Rightarrow> True | _ \<Rightarrow> False) t"

text \<open>Sample data: ASCII bytes, a few entries, and three worlds around one output file.\<close>

definition blit :: "string \<Rightarrow> bytes" where
  "blit s = map of_char s"

definition home_entry :: entry where
  "home_entry =
     \<lparr>path = lit ''A/home.html'', title = lit ''Home'',
      content = blit ''<html><body>Hi</body></html>''\<rparr>"

definition note_entry :: entry where
  "note_entry = \<lparr>path = lit ''A/note'', title = lit ''Note'', content = blit ''<p>Hi</p>''\<rparr>"

definition z_entry :: entry where
  "z_entry = \<lparr>path = lit ''z/page'', title = lit ''Page'', content = []\<rparr>"

definition bad_entry :: entry where
  "bad_entry =
     \<lparr>path = lit ''A/bad'', title = lit ''Bad'',
      content = blit ''<body>a'' @ [0xFF] @ blit ''b</body>''\<rparr>"

definition png_entry :: entry where
  "png_entry = \<lparr>path = lit ''I/b.png'', title = lit ''Logo'', content = [0x89, 0x50]\<rparr>"

text \<open>
  Two file systems: one that refuses nothing, and one that refuses a file name of more
  than 255 characters, as common file systems do.  The path of \<open>long_entry\<close> has 302
  characters; its file name would have 306.
\<close>

definition obliging_fs :: file_system where
  "obliging_fs =
     \<lparr>mkdir_error = (\<lambda>d. None), open_error = (\<lambda>d name. None), write_error = (\<lambda>w. None)\<rparr>"

definition name_limit_fs :: file_system where
  "name_limit_fs =
     \<lparr>mkdir_error = (\<lambda>d. None),
      open_error = (\<lambda>d name. if 255 < length name then Some OSError else None),
      write_error = (\<lambda>w. None)\<rparr>"

definition long_entry :: entry where
  "long_entry =
     \<lparr>path = lit ''I/'' @ replicate 295 0x61 @ lit ''a.png'', title = lit ''Long'',
      content = [0x89, 0x50]\<rparr>"

definition demo_out :: str where
  "demo_out = lit ''wiki.zim''"

definition demo_main :: str where
  "demo_main = lit ''A/home.html''"

text \<open>
  A directory that holds only the old archive.  In \<open>clean_world\<close> the first build stages
  and renames, then its \<open>shutil.move\<close> fails (the cleanup goes through); the archive writer
  of the next build fails.  \<open>after_failed_swap\<close> is the world between the two builds.
\<close>

definition clean_world :: world where
  "clean_world =
     \<lparr>files = [demo_out \<mapsto> Data [1, 2, 3]],
      faults = [None, None, Some OSError, None, Some OSError],
      partial_on_failure = False, trace = []\<rparr>"

definition after_failed_swap :: world where
  "after_failed_swap = snd (create_zim_file demo_out [] demo_main clean_world)"

text \<open>The old archive is locked: both attempts to rename it fail.\<close>

definition locked_world :: world where
  "locked_world =
     \<lparr>files = [demo_out \<mapsto> Data [1, 2, 3]],
      faults = [None, Some PermissionError, Some PermissionError],
      partial_on_failure = False, trace = []\<rparr>"

text \<open>The archive writer fails and leaves an unfinished file behind.\<close>

definition broken_world :: world where
  "broken_world =
     \<lparr>files = [demo_out \<mapsto> Data [1, 2, 3]],
      faults = [Some RuntimeError],
      partial_on_failure = True, trace = []\<rparr>"

section \<open>Auxiliary facts\<close>

lemmas fs_defs =
  create_zim_file_def try_block_def stage_def rename_existing_def os_rename_def
  shutil_move_def os_remove_def os_path_exists_def time_sleep_def called_def next_fault_def

lemma suffix_facts:
  "lit ''.tmp'' \<noteq> []" "lit ''.backup'' \<noteq> []" "lit ''.backup'' \<noteq> lit ''.tmp''"
  "[] \<noteq> lit ''.tmp''" "[] \<noteq> lit ''.backup''" "lit ''.tmp'' \<noteq> lit ''.backup''"
  by (simp_all add: lit_def)

text \<open>With \<open>errors='ignore'\<close> and \<open>errors='replace'\<close> the decoder always returns.\<close>

lemma decode_ignore_sequences:
  "decode_utf8 Ignore bs =
     Inr (concat (map (\<lambda>r. case r of None \<Rightarrow> [] | Some cp \<Rightarrow> [cp]) (utf8_sequences bs)))"
proof (induction bs rule: utf8_sequences.induct)
  case 1
  show ?case by simp
next
  case (2 ch rest)
  obtain r n where rn: "utf8_next ch rest = (r, n)" by (cases "utf8_next ch rest")
  from 2[OF rn[symmetric]] rn show ?case by (cases r) simp_all
qed

lemma decode_ignore_discarding: "decode_utf8 Ignore bs = Inr (discarding bs)"
  by (simp add: decode_ignore_sequences discarding_def)

lemma decode_replace_sequences:
  "decode_utf8 Replace bs =
     Inr (map (\<lambda>r. case r of None \<Rightarrow> 0xFFFD | Some cp \<Rightarrow> cp) (utf8_sequences bs))"
proof (induction bs rule: utf8_sequences.induct)
  case 1
  show ?case by simp
next
  case (2 ch rest)
  obtain r n where rn: "utf8_next ch rest = (r, n)" by (cases "utf8_next ch rest")
  from 2[OF rn[symmetric]] rn show ?case by (cases r) simp_all
qed

text \<open>Loops.\<close>

lemma for_each_append:
  "for_each f (xs @ ys) =
     (case for_each f xs of
        (a, Some e) \<Rightarrow> (a, Some e)
      | (a, None) \<Rightarrow> (case for_each f ys of (b, r) \<Rightarrow> (a @ b, r)))"
  by (induction xs) (auto split: sum.splits prod.splits option.splits)

lemma for_each_no_error:
  "\<forall>x \<in> set xs. \<exists>ys. f x = Inr ys \<Longrightarrow> snd (for_each f xs) = None"
  by (induction xs) (auto split: sum.splits prod.splits)

lemma for_each_skip:
  "f x = Inr [] \<Longrightarrow> for_each f (xs @ x # ys) = for_each f (xs @ ys)"
  by (simp add: for_each_append split: prod.splits option.splits)

lemma for_each_all:
  "\<forall>x \<in> set xs. f x = Inr (g x) \<Longrightarrow> for_each f xs = (concat (map g xs), None)"
  by (induction xs) auto

lemma for_each_until_refused:
  assumes "\<And>x. f x = (if P x then (case refused fs (g x) of
                                      Some err \<Rightarrow> Inl err
                                    | None \<Rightarrow> Inr [g x])
                       else Inr [])"
  shows "for_each f xs = until_refused fs (map g (filter P xs))"
  by (induction xs) (auto simp: assms split: option.splits prod.splits)

lemma until_refused_none:
  "\<forall>w \<in> set ws. refused fs w = None \<Longrightarrow> until_refused fs ws = (ws, None)"
  by (induction ws) auto

lemma until_refused_subset: "set (fst (until_refused fs ws)) \<subseteq> set ws"
  by (induction ws) (auto split: option.splits prod.splits)

lemma until_refused_error:
  "snd (until_refused fs ws) = Some err \<Longrightarrow> \<exists>w \<in> set ws. refused fs w = Some err"
  by (induction ws) (auto split: option.splits prod.splits)

lemma for_each_member:
  "w \<in> set (fst (for_each f xs)) \<Longrightarrow> \<exists>x \<in> set xs. \<exists>ys. f x = Inr ys \<and> w \<in> set ys"
  by (induction xs) (auto split: sum.splits prod.splits)

lemma list_all_paths_None: "for_each (list_all_paths_entry None) zim = (map path zim, None)"
  by (induction zim) (simp_all add: list_all_paths_entry_def)

text \<open>The two regular expressions.\<close>

lemma no_body_tag: "\<not> py_in (lit ''<body'') s \<Longrightarrow> body_search s = None"
  by (induction s) auto

lemma tag_tail_closed:
  "0x3C \<notin> set name \<Longrightarrow> 0x3E \<notin> set name \<Longrightarrow>
   tag_tail (name @ 0x3E # rest) = Some (Suc (length name))"
  by (induction name) auto

text \<open>A tag \<open><name>\<close> is deleted, and text without \<open><\<close> is kept as it is.\<close>

lemma strip_tags_tag:
  assumes "name \<noteq> []" and "0x3C \<notin> set name" and "0x3E \<notin> set name"
  shows "strip_tags (0x3C # name @ 0x3E # rest) = strip_tags rest"
proof -
  from assms(1) obtain c cs where n: "name = c # cs" by (cases name) auto
  with assms have "tag_length (name @ 0x3E # rest) = Some (length name + 1)"
    by (simp add: tag_tail_closed)
  then show ?thesis by simp
qed

lemma strip_tags_plain: "0x3C \<notin> set t \<Longrightarrow> strip_tags t = t"
  by (induction t) auto

text \<open>Namespaces.\<close>

lemma fold_keeps_absent:
  "m k = None \<Longrightarrow> map_of namespace_descriptions k \<noteq> None \<Longrightarrow>
   fold (\<lambda>e namespaces.
            case path e of
              [] \<Rightarrow> namespaces
            | c # _ \<Rightarrow>
                if map_of namespace_descriptions [c] = None
                then namespaces([c] \<mapsto> lit ''Unknown_'' @ [c])
                else namespaces)
        zim m k = None"
proof (induction zim arbitrary: m)
  case Nil
  then show ?case by simp
next
  case (Cons e zim)
  show ?case
  proof (cases "path e")
    case Nil
    with Cons show ?thesis by simp
  next
    case (Cons c cs)
    show ?thesis
    proof (cases "map_of namespace_descriptions [c] = None")
      case True
      with Cons.prems have "[c] \<noteq> k" by auto
      then have "(m([c] \<mapsto> lit ''Unknown_'' @ [c])) k = None" using Cons.prems by simp
      then have "fold (\<lambda>e namespaces.
            case path e of
              [] \<Rightarrow> namespaces
            | c # _ \<Rightarrow>
                if map_of namespace_descriptions [c] = None
                then namespaces([c] \<mapsto> lit ''Unknown_'' @ [c])
                else namespaces) zim (m([c] \<mapsto> lit ''Unknown_'' @ [c])) k = None"
        using Cons.prems(2) by (rule Cons.IH)
      with True \<open>path e = c # cs\<close> show ?thesis by simp
    next
      case False
      have "fold (\<lambda>e namespaces.
            case path e of
              [] \<Rightarrow> namespaces
            | c # _ \<Rightarrow>
                if map_of namespace_descriptions [c] = None
                then namespaces([c] \<mapsto> lit ''Unknown_'' @ [c])
                else namespaces) zim m k = None"
        using Cons.prems by (rule Cons.IH)
      with False \<open>path e = c # cs\<close> show ?thesis by auto
    qed
  qed
qed

lemma view_all_known:
  "map_of namespace_descriptions k \<noteq> None \<Longrightarrow> view_all_namespaces zim k = None"
  unfolding view_all_namespaces_def by (rule fold_keeps_absent) simp_all

lemma known_key_not_pseudo:
  "map_of namespace_descriptions k = Some d \<Longrightarrow> k \<noteq> lit ''ALL'' \<and> k \<noteq> lit ''UNKNOWN''"
  by (auto simp: namespace_descriptions_def lit_def split: if_splits)

lemma unknown_description:
  "startswith (get_namespace_description [c]) (lit ''Unknown'') =
     (map_of namespace_descriptions [c] = None)"
  by (simp add: get_namespace_description_def namespace_descriptions_def lit_def startswith_def)

lemma unknown_not_code: "[c] \<noteq> lit ''UNKNOWN''"
  by (simp add: lit_def)

text \<open>Sanitised names.\<close>

lemma sanitize_nth:
  "i < length s \<Longrightarrow>
   sanitize_filename s ! i =
     (if s ! i \<in> {0x3C, 0x3E, 0x3A, 0x22, 0x2F, 0x5C, 0x7C, 0x3F, 0x2A} then 0x5F else s ! i)"
  by (simp add: sanitize_filename_def unsafe_chars_def)

lemma sanitize_clean:
  "set (sanitize_filename s) \<inter> {0x3C, 0x3E, 0x3A, 0x22, 0x2F, 0x5C, 0x7C, 0x3F, 0x2A} = {}"
  by (auto simp: sanitize_filename_def unsafe_chars_def)

lemma split_last_no_slash: "0x2F \<notin> set (split_last s)"
  by (auto simp: split_last_def dest: set_takeWhileD)

lemma extract_entry_name:
  "extract_entry fs d ns mt e = Inr ws \<Longrightarrow> w \<in> set ws \<Longrightarrow>
   file_name w =
     sanitize_filename (path e) @ lit ''.'' @ split_last (determine_mimetype (path e))"
  by (auto simp: extract_entry_def write_file_def Let_def
           split: list.splits if_splits sum.splits option.splits)

lemma extract_by_mimetype_member:
  "w \<in> set (fst (extract_by_mimetype fs zim d ns mt)) \<Longrightarrow>
   \<exists>e \<in> set zim. \<exists>ws. extract_entry fs d ns mt e = Inr ws \<and> w \<in> set ws"
  by (auto simp: extract_by_mimetype_def split: option.splits dest: for_each_member)

text \<open>The loop of bulk extraction, entry by entry and as a whole.\<close>

lemma extract_entry_eq:
  "extract_entry fs d ns mt e =
    (if passes_filter ns mt e
     then (case refused fs (expected_file d mt e) of
             Some err \<Rightarrow> Inl err
           | None \<Rightarrow> Inr [expected_file d mt e])
     else Inr [])"
proof (cases "path e")
  case Nil
  then show ?thesis by (simp add: extract_entry_def passes_filter_def)
next
  case (Cons c cs)
  show ?thesis
  proof (cases "passes_filter ns mt e")
    case False
    with Cons show ?thesis
      by (auto simp: extract_entry_def passes_filter_def Let_def unknown_description)
  next
    case True
    with Cons have cond:
      "((ns = None \<or> Some [c] = ns) \<or>
        (ns = Some (lit ''UNKNOWN'') \<and>
         startswith (get_namespace_description [c]) (lit ''Unknown''))) \<and>
       startswith (determine_mimetype (c # cs)) mt"
      by (auto simp: passes_filter_def unknown_description)
    show ?thesis
    proof (cases "binary_mode mt")
      case True
      with cond Cons \<open>passes_filter ns mt e\<close> show ?thesis
        by (simp add: extract_entry_def Let_def refused_def expected_file_def binary_mode_def
              write_file_def split: option.splits)
    next
      case False
      with cond Cons \<open>passes_filter ns mt e\<close> show ?thesis
        by (simp add: extract_entry_def Let_def refused_def expected_file_def binary_mode_def
              write_file_def decode_ignore_discarding split: option.splits)
    qed
  qed
qed

lemma passes_filter_selector: "passes_filter (selector_arg sel) mt e = entry_matches sel mt e"
  by (cases sel)
     (auto simp: passes_filter_def entry_matches_def unknown_not_code unknown_not_code[symmetric]
           split: list.splits)

lemma passes_filter_selector_fun: "passes_filter (selector_arg sel) mt = entry_matches sel mt"
  by (rule ext) (rule passes_filter_selector)

lemma entry_matches_nonempty:
  "path e \<noteq> [] \<Longrightarrow>
   entry_matches sel mt e =
     (selector_matches sel (hd (path e)) \<and> startswith (determine_mimetype (path e)) mt)"
  by (cases "path e") (simp_all add: entry_matches_def)

lemma extract_by_mimetype_eq:
  "extract_by_mimetype fs zim d ns mt =
    (case mkdir_error fs d of
       Some err \<Rightarrow> ([], Some err)
     | None \<Rightarrow> until_refused fs (map (expected_file d mt) (filter (passes_filter ns mt) zim)))"
  unfolding extract_by_mimetype_def
  by (simp add: for_each_until_refused[where P = "passes_filter ns mt" and g = "expected_file d mt"]
        extract_entry_eq split: option.splits)

text \<open>The entry with the long path.\<close>

lemma endswith_append:
  "length p \<le> length ys \<Longrightarrow> endswith (xs @ ys) p = endswith ys p"
  by (simp add: endswith_def)

lemma long_mimetype: "determine_mimetype (path long_entry) = lit ''image/png''"
  by (simp add: long_entry_def determine_mimetype_def startswith_def lit_def
        endswith_append[of _ "[0x61, 0x2E, 0x70, 0x6E, 0x67]" "0x49 # 0x2F # replicate 295 0x61",
          simplified]
        endswith_def)

text \<open>The lookup by path.\<close>

lemma find_SomeD: "find P xs = Some x \<Longrightarrow> x \<in> set xs \<and> P x"
  by (induction xs) (auto split: if_splits)

lemma get_entry_by_path_KeyError:
  "(get_entry_by_path zim p = Inl KeyError) =
     ((\<forall>e \<in> set zim. path e \<noteq> p) \<and> (\<forall>e \<in> set zim. parse_long_path p \<noteq> Some (path e)))"
  by (auto simp: get_entry_by_path_def find_None_iff split: option.splits dest: find_SomeD)

lemma known_key:
  "map_of namespace_descriptions k = Some d \<Longrightarrow> get_namespaces zim k = Some d"
  using known_key_not_pseudo[of k d] view_all_known[of k zim]
  by (simp add: get_namespaces_def map_add_def)

section \<open>Claims about mimetypes and file names\<close>

text \<open>
  C7.  The read-side resolver \<open>_determine_mimetype\<close> is the first-match evaluation of its
  rule list from top to bottom: a path that starts with \<open>A/\<close> resolves to \<open>text/html\<close>
  whatever its extension, and a path that no rule matches resolves to
  \<open>application/octet-stream\<close>.  The write-side resolver \<open>MyItem.get_mimetype\<close> is the
  first-match evaluation of the same extension rules without the \<open>A/\<close> rule; it knows
  only \<open>.html\<close>/\<open>.htm\<close>, \<open>.png\<close>, \<open>.jpg\<close>/\<open>.jpeg\<close>, \<open>.css\<close> and \<open>.js\<close> and otherwise falls back
  to \<open>application/octet-stream\<close>.
\<close>

theorem mimetype_first_match:
  "determine_mimetype p = first_match read_rules p \<and>
   get_mimetype p = first_match write_rules p \<and>
   (startswith p (lit ''A/'') \<longrightarrow> determine_mimetype p = lit ''text/html'') \<and>
   ((\<forall>r \<in> set read_rules. \<not> rule_matches p r) \<longrightarrow>
      determine_mimetype p = lit ''application/octet-stream'') \<and>
   ((\<forall>r \<in> set write_rules. \<not> rule_matches p r) \<longrightarrow>
      get_mimetype p = lit ''application/octet-stream'') \<and>
   (\<exists>more. read_rules = ([Prefix (lit ''A/'')], lit ''text/html'') # write_rules @ more) \<and>
   map fst write_rules =
     [[Suffix (lit ''.html''), Suffix (lit ''.htm'')], [Suffix (lit ''.png'')],
      [Suffix (lit ''.jpg''), Suffix (lit ''.jpeg'')], [Suffix (lit ''.css'')],
      [Suffix (lit ''.js'')]]"
  by (simp add: determine_mimetype_def get_mimetype_def first_match_def read_rules_def
        write_rules_def rule_matches_def)

text \<open>
  At \<open>A/logo.png\<close> the prefix rule wins on the read side and the extension decides on
  the write side; \<open>I/data.bin\<close> matches no rule.
\<close>

theorem mimetype_first_match_witness:
  "startswith (lit ''A/logo.png'') (lit ''A/'') \<and>
   determine_mimetype (lit ''A/logo.png'') = lit ''text/html'' \<and>
   get_mimetype (lit ''A/logo.png'') = lit ''image/png'' \<and>
   list_all (\<lambda>r. \<not> rule_matches (lit ''I/data.bin'') r) read_rules \<and>
   determine_mimetype (lit ''I/data.bin'') = lit ''application/octet-stream''"
  using mimetype_first_match[of "lit ''A/logo.png''"] mimetype_first_match[of "lit ''I/data.bin''"]
  by (simp add: startswith_def endswith_def lit_def read_rules_def write_rules_def
        rule_matches_def get_mimetype_def determine_mimetype_def first_match_def)

text \<open>
  C2, as the code has it.  \<open>_sanitize_filename\<close> replaces every occurrence of each of the
  nine characters \<open><\<close> \<open>>\<close> \<open>:\<close> \<open>"\<close> \<open>/\<close> \<open>\\<close> \<open>|\<close> \<open>?\<close> \<open>*\<close> by an underscore and leaves every
  other character alone; the \<open>/\<close> is one of the nine, so the separators of an entry path
  are replaced as well.  \<open>a:b?c.html\<close> becomes \<open>a_b_c.html\<close>, and no file name that
  \<open>extract_by_mimetype\<close> writes contains a \<open>/\<close>: every file lies directly in the output
  directory.
\<close>

theorem sanitize_filename_replaces_all_nine:
  "length (sanitize_filename s) = length s \<and>
   (\<forall>i < length s. sanitize_filename s ! i =
      (if s ! i \<in> {0x3C, 0x3E, 0x3A, 0x22, 0x2F, 0x5C, 0x7C, 0x3F, 0x2A} then 0x5F else s ! i)) \<and>
   sanitize_filename (lit ''a:b?c.html'') = lit ''a_b_c.html'' \<and>
   (\<forall>w \<in> set (fst (extract_by_mimetype fs zim d ns mt)). 0x2F \<notin> set (file_name w))"
proof -
  have "0x2F \<notin> set (file_name w)" if "w \<in> set (fst (extract_by_mimetype fs zim d ns mt))" for w
  proof -
    from that obtain e ws where "extract_entry fs d ns mt e = Inr ws" "w \<in> set ws"
      by (blast dest: extract_by_mimetype_member)
    then have "file_name w =
        sanitize_filename (path e) @ lit ''.'' @ split_last (determine_mimetype (path e))"
      by (rule extract_entry_name)
    moreover have "0x2F \<notin> set (sanitize_filename (path e))"
      using sanitize_clean[of "path e"] by auto
    moreover have "0x2F \<notin> set (lit ''.'')" by (simp add: lit_def)
    ultimately show ?thesis using split_last_no_slash by simp
  qed
  moreover have "sanitize_filename (lit ''a:b?c.html'') = lit ''a_b_c.html''"
    by (simp add: sanitize_filename_def unsafe_chars_def lit_def)
  moreover have "length (sanitize_filename s) = length s" by (simp add: sanitize_filename_def)
  ultimately show ?thesis using sanitize_nth by blast
qed

theorem sanitize_filename_replaces_all_nine_witness:
  "length (sanitize_filename (lit ''I/b.png'')) = 7 \<and>
   sanitize_filename (lit ''I/b.png'') ! 1 = 0x5F \<and>
   sanitize_filename (lit ''I/b.png'') ! 2 = 0x62 \<and>
   map file_name
     (fst (extract_by_mimetype obliging_fs [png_entry] (lit ''out'') None (lit ''image/''))) =
     [lit ''I_b.png.png''] \<and>
   list_all (\<lambda>w. 0x2F \<notin> set (file_name w))
     (fst (extract_by_mimetype obliging_fs [png_entry] (lit ''out'') None (lit ''image/'')))"
proof -
  have n: "length (lit ''I/b.png'') = 7" "(1::nat) < 7" "(2::nat) < 7"
    "lit ''I/b.png'' ! 1 = 0x2F" "lit ''I/b.png'' ! 2 = 0x62"
    by (simp_all add: lit_def)
  have x: "map file_name
      (fst (extract_by_mimetype obliging_fs [png_entry] (lit ''out'') None (lit ''image/'')))
      = [lit ''I_b.png.png'']"
    by (simp add: extract_by_mimetype_def extract_entry_def determine_mimetype_def
          startswith_def endswith_def lit_def split_last_def sanitize_filename_def
          unsafe_chars_def png_entry_def obliging_fs_def write_file_def)
  from sanitize_filename_replaces_all_nine
         [of "lit ''I/b.png''" obliging_fs "[png_entry]" "lit ''out''" None "lit ''image/''"] n x
  show ?thesis by (simp add: list_all_iff)
qed

text \<open>
  The separators of \<open>ns/sub/dir/page.html\<close> do not survive: the sanitised name is
  \<open>ns_sub_dir_page.html\<close>, with no \<open>/\<close> left in it.
\<close>

theorem sanitize_filename_replaces_slash:
  "sanitize_filename (lit ''ns/sub/dir/page.html'') = lit ''ns_sub_dir_page.html'' \<and>
   0x2F \<in> set (lit ''ns/sub/dir/page.html'') \<and>
   0x2F \<notin> set (sanitize_filename (lit ''ns/sub/dir/page.html''))"
  by (simp add: sanitize_filename_def unsafe_chars_def lit_def)

section \<open>Claims about bulk extraction\<close>

text \<open>
  C6, as the code has it.  \<open>extract_by_mimetype\<close> first makes the output directory and
  then goes through the entries in the order of the archive.  It writes a file only for
  an entry with a non-empty path that the namespace selector matches and whose mimetype,
  resolved from its path, starts with the given prefix; the no-filter selector matches
  every entry, an exact selector the entries whose first path character is its code, the
  unknown selector the entries whose first path character is no key of the registry, and
  the match on the mimetype is a prefix match.  The files written are those of the
  matching entries, each entry's own file and in the order of the archive, up to the first
  one that the file system refuses: that \<open>OSError\<close> is not caught, it ends the extraction,
  and neither that entry nor any matching entry after it is written.  So as long as
  nothing is refused an entry with a non-empty path is written if and only if it
  matches.  With the entries \<open>A/a.html\<close>, \<open>I/b.png\<close>, \<open>I/c.jpg\<close>, no filter and the prefix
  \<open>image/\<close>, exactly the two images are written.
\<close>

theorem extraction_writes_matching_until_refused:
  "extract_by_mimetype fs zim d (selector_arg sel) mt =
     (case mkdir_error fs d of
        Some err \<Rightarrow> ([], Some err)
      | None \<Rightarrow>
          until_refused fs (map (expected_file d mt) (filter (entry_matches sel mt) zim))) \<and>
   (mkdir_error fs d = None \<and>
    (\<forall>e \<in> set zim. entry_matches sel mt e \<longrightarrow> refused fs (expected_file d mt e) = None) \<longrightarrow>
      extract_by_mimetype fs zim d (selector_arg sel) mt =
        (map (expected_file d mt) (filter (entry_matches sel mt) zim), None)) \<and>
   (\<forall>w \<in> set (fst (extract_by_mimetype fs zim d (selector_arg sel) mt)).
      \<exists>e \<in> set zim. entry_matches sel mt e \<and> w = expected_file d mt e) \<and>
   (\<forall>c cs. path e = c # cs \<longrightarrow>
      ((\<exists>w. extract_entry fs d (selector_arg sel) mt e = Inr [w]) =
         (selector_matches sel c \<and> startswith (determine_mimetype (path e)) mt \<and>
          refused fs (expected_file d mt e) = None)) \<and>
      (\<not> (selector_matches sel c \<and> startswith (determine_mimetype (path e)) mt) \<longrightarrow>
         extract_entry fs d (selector_arg sel) mt e = Inr [])) \<and>
   extract_by_mimetype obliging_fs
     [\<lparr>path = lit ''A/a.html'', title = t1, content = c1\<rparr>,
      \<lparr>path = lit ''I/b.png'', title = t2, content = c2\<rparr>,
      \<lparr>path = lit ''I/c.jpg'', title = t3, content = c3\<rparr>] d None (lit ''image/'') =
     ([\<lparr>file_dir = d, file_name = lit ''I_b.png.png'', file_payload = Binary c2\<rparr>,
       \<lparr>file_dir = d, file_name = lit ''I_c.jpg.jpeg'', file_payload = Binary c3\<rparr>],
      None)"
proof -
  let ?ms = "map (expected_file d mt) (filter (entry_matches sel mt) zim)"
  have whole: "extract_by_mimetype fs zim d (selector_arg sel) mt =
     (case mkdir_error fs d of
        Some err \<Rightarrow> ([], Some err)
      | None \<Rightarrow> until_refused fs ?ms)"
    by (simp add: extract_by_mimetype_eq passes_filter_selector_fun split: option.splits)
  have smooth: "extract_by_mimetype fs zim d (selector_arg sel) mt = (?ms, None)"
    if "mkdir_error fs d = None"
      and "\<forall>e \<in> set zim. entry_matches sel mt e \<longrightarrow> refused fs (expected_file d mt e) = None"
  proof -
    from that(2) have "\<forall>w \<in> set ?ms. refused fs w = None" by auto
    then have "until_refused fs ?ms = (?ms, None)" by (rule until_refused_none)
    with whole that(1) show ?thesis by simp
  qed
  have only: "\<exists>x \<in> set zim. entry_matches sel mt x \<and> w = expected_file d mt x"
    if "w \<in> set (fst (extract_by_mimetype fs zim d (selector_arg sel) mt))" for w
  proof (cases "mkdir_error fs d")
    case None
    with that whole have "w \<in> set (fst (until_refused fs ?ms))" by simp
    with until_refused_subset have "w \<in> set ?ms" by blast
    then show ?thesis by auto
  next
    case (Some err)
    with that whole show ?thesis by simp
  qed
  have one: "((\<exists>w. extract_entry fs d (selector_arg sel) mt e = Inr [w]) =
         (selector_matches sel c \<and> startswith (determine_mimetype (path e)) mt \<and>
          refused fs (expected_file d mt e) = None)) \<and>
      (\<not> (selector_matches sel c \<and> startswith (determine_mimetype (path e)) mt) \<longrightarrow>
         extract_entry fs d (selector_arg sel) mt e = Inr [])"
    if "path e = c # cs" for c cs
    using that
    by (auto simp: extract_entry_eq passes_filter_selector entry_matches_def
             split: option.splits)
  have three: "extract_by_mimetype obliging_fs
     [\<lparr>path = lit ''A/a.html'', title = t1, content = c1\<rparr>,
      \<lparr>path = lit ''I/b.png'', title = t2, content = c2\<rparr>,
      \<lparr>path = lit ''I/c.jpg'', title = t3, content = c3\<rparr>] d None (lit ''image/'') =
     ([\<lparr>file_dir = d, file_name = lit ''I_b.png.png'', file_payload = Binary c2\<rparr>,
       \<lparr>file_dir = d, file_name = lit ''I_c.jpg.jpeg'', file_payload = Binary c3\<rparr>],
      None)"
    by (simp add: extract_by_mimetype_def extract_entry_def determine_mimetype_def
          startswith_def endswith_def lit_def split_last_def sanitize_filename_def
          unsafe_chars_def obliging_fs_def write_file_def)
  from whole smooth only one three show ?thesis by blast
qed

text \<open>
  The page and the image, no filter, the prefix \<open>image/\<close>, a file system that refuses
  nothing: the image is the only entry that matches and its file is the only one written.
  Under the unknown selector the image is not written, \<open>I\<close> being a key of the registry.
\<close>

theorem extraction_writes_matching_until_refused_witness:
  "mkdir_error obliging_fs (lit ''out'') = None \<and>
   filter (entry_matches NoFilter (lit ''image/'')) [home_entry, png_entry] = [png_entry] \<and>
   refused obliging_fs (expected_file (lit ''out'') (lit ''image/'') png_entry) = None \<and>
   extract_by_mimetype obliging_fs [home_entry, png_entry] (lit ''out'') None (lit ''image/'') =
     ([\<lparr>file_dir = lit ''out'', file_name = lit ''I_b.png.png'',
        file_payload = Binary [0x89, 0x50]\<rparr>], None) \<and>
   extract_by_mimetype obliging_fs [home_entry, png_entry] (lit ''out'')
     (Some (lit ''UNKNOWN'')) (lit ''image/'') = ([], None)"
proof -
  have m: "mkdir_error obliging_fs (lit ''out'') = None" by (simp add: obliging_fs_def)
  have r: "\<forall>w. refused obliging_fs w = None" by (simp add: refused_def obliging_fs_def)
  have f1: "filter (entry_matches NoFilter (lit ''image/'')) [home_entry, png_entry] = [png_entry]"
    by (simp add: entry_matches_def home_entry_def png_entry_def determine_mimetype_def
          startswith_def endswith_def lit_def)
  have f2: "filter (entry_matches UnknownFilter (lit ''image/'')) [home_entry, png_entry] = []"
    by (simp add: entry_matches_def home_entry_def png_entry_def determine_mimetype_def
          startswith_def endswith_def lit_def namespace_descriptions_def)
  have x: "expected_file (lit ''out'') (lit ''image/'') png_entry =
     \<lparr>file_dir = lit ''out'', file_name = lit ''I_b.png.png'',
      file_payload = Binary [0x89, 0x50]\<rparr>"
    by (simp add: expected_file_def binary_mode_def png_entry_def determine_mimetype_def
          startswith_def endswith_def lit_def split_last_def sanitize_filename_def
          unsafe_chars_def)
  from extraction_writes_matching_until_refused
         [of obliging_fs "[home_entry, png_entry]" "lit ''out''" NoFilter "lit ''image/''"]
       extraction_writes_matching_until_refused
         [of obliging_fs "[home_entry, png_entry]" "lit ''out''" UnknownFilter "lit ''image/''"]
       m r f1 f2 x
  show ?thesis by simp
qed

text \<open>
  A matching entry that is not written.  The path of \<open>long_entry\<close> has 302 characters and
  resolves to \<open>image/png\<close>; the file system refuses the name of its file, which is longer
  than 255 characters.  The \<open>OSError\<close> of \<open>open\<close> leaves \<open>extract_by_mimetype\<close> at that
  entry: nothing is written for it, and nothing for \<open>I/b.png\<close> after it, although both
  match.
\<close>

theorem long_name_stops_extraction:
  "length (path long_entry) = 302 \<and>
   entry_matches NoFilter (lit ''image/'') long_entry \<and>
   entry_matches NoFilter (lit ''image/'') png_entry \<and>
   mkdir_error name_limit_fs (lit ''out'') = None \<and>
   extract_by_mimetype name_limit_fs [long_entry, png_entry] (lit ''out'') None (lit ''image/'') =
     ([], Some OSError)"
proof -
  have m: "determine_mimetype (path long_entry) = lit ''image/png''" by (rule long_mimetype)
  have l: "length (path long_entry) = 302" by (simp add: long_entry_def lit_def)
  have e1: "entry_matches NoFilter (lit ''image/'') long_entry"
  proof -
    from l have "path long_entry \<noteq> []" by auto
    then show ?thesis by (simp add: entry_matches_nonempty m) (simp add: startswith_def lit_def)
  qed
  have e2: "entry_matches NoFilter (lit ''image/'') png_entry"
    by (simp add: entry_matches_def png_entry_def determine_mimetype_def startswith_def
          endswith_def lit_def)
  have r: "refused name_limit_fs (expected_file (lit ''out'') (lit ''image/'') long_entry) =
      Some OSError"
    by (simp add: refused_def name_limit_fs_def expected_file_def sanitize_filename_def l m)
  have "extract_by_mimetype name_limit_fs [long_entry, png_entry] (lit ''out'') None
          (lit ''image/'') = ([], Some OSError)"
    using e1 e2 r
    by (simp add: extract_by_mimetype_eq passes_filter_selector_fun[of NoFilter, simplified]
          name_limit_fs_def)
  with e1 e2 l show ?thesis by (auto simp: name_limit_fs_def)
qed

section \<open>Claims about the reading operations\<close>

text \<open>
  C10.  \<open>extract_titles\<close> and \<open>extract_all_text\<close> test \<open>entry.path.startswith(namespace)\<close>
  and so need a string: called with \<open>None\<close>, the value \<open>set_namespace\<close> returns for
  \<open>ALL\<close>, on an archive that has an entry, both fail with a \<open>TypeError\<close> at the first
  entry (the first having returned no title, the second having written nothing), whereas
  \<open>list_all_paths\<close> accepts \<open>None\<close> and returns the path of every entry.
\<close>

theorem none_namespace_type_error:
  assumes "zim \<noteq> []"
  shows "extract_titles zim None = Inl TypeError \<and>
         extract_all_text zim None = ([], Some TypeError) \<and>
         list_all_paths zim None = Inr (map path zim) \<and>
         set_namespace ascii_toupper zim (lit ''ALL'') = Inr None"
proof -
  from assms obtain e es where z: "zim = e # es" by (cases zim) auto
  have "py_strip (py_upper ascii_toupper (lit ''ALL'')) = lit ''ALL''"
    by (simp add: py_strip_def py_upper_def ascii_toupper_def py_isspace_def lit_def)
  then have "set_namespace ascii_toupper zim (lit ''ALL'') = Inr None"
    by (simp add: set_namespace_def)
  moreover have "extract_titles zim None = Inl TypeError"
    by (simp add: z extract_titles_def extract_titles_entry_def py_startswith_def returning_def)
  moreover have "extract_all_text zim None = ([], Some TypeError)"
    by (simp add: z extract_all_text_def extract_all_text_entry_def py_startswith_def)
  moreover have "list_all_paths zim None = Inr (map path zim)"
    by (simp add: list_all_paths_def list_all_paths_None returning_def)
  ultimately show ?thesis by blast
qed

theorem none_namespace_type_error_witness:
  "[home_entry, note_entry] \<noteq> [] \<and>
   extract_titles [home_entry, note_entry] None = Inl TypeError \<and>
   extract_all_text [home_entry, note_entry] None = ([], Some TypeError) \<and>
   list_all_paths [home_entry, note_entry] None = Inr [lit ''A/home.html'', lit ''A/note''] \<and>
   extract_titles [home_entry, note_entry] (Some (lit ''A'')) =
     Inr [(lit ''A/home.html'', lit ''Home''), (lit ''A/note'', lit ''Note'')]"
proof -
  have h: "[home_entry, note_entry] \<noteq> []" by simp
  have t: "extract_titles [home_entry, note_entry] (Some (lit ''A'')) =
     Inr [(lit ''A/home.html'', lit ''Home''), (lit ''A/note'', lit ''Note'')]"
    by (simp add: extract_titles_def extract_titles_entry_def py_startswith_def returning_def
          home_entry_def note_entry_def startswith_def lit_def)
  from none_namespace_type_error[OF h] t show ?thesis
    by (simp add: home_entry_def note_entry_def)
qed

text \<open>
  C5.  Take an entry of the archive whose decoded content has no \<open><body\<close> in it.
  \<open>extract_all_text\<close> writes nothing for it: its output is the same as for the archive
  without that entry.  \<open>save_selected_articles\<close>, asked for the path of the entry, writes
  its title and the whole decoded document with the tags removed by
  \<open>re.sub('<[^<]+?>', '', article)\<close>.
\<close>

theorem no_body_asymmetry:
  assumes "get_entry_by_path zim p = Inr (Some e)"
      and "decode_utf8 Ignore (content e) = Inr article"
      and "\<not> py_in (lit ''<body'') article"
  shows "extract_all_text_entry (Some n) e = Inr [] \<and>
         extract_all_text (xs @ e # ys) (Some n) = extract_all_text (xs @ ys) (Some n) \<and>
         save_selected_articles (get_entry_by_path zim) [p] =
           (lit ''Title: '' @ title e @ newlines @ strip_tags article @ newlines, None)"
proof -
  from assms(3) have nb: "body_search article = None" by (rule no_body_tag)
  with assms(2) have a: "extract_all_text_entry (Some n) e = Inr []"
    by (simp add: extract_all_text_entry_def py_startswith_def split: bool.splits)
  then have b: "extract_all_text (xs @ e # ys) (Some n) = extract_all_text (xs @ ys) (Some n)"
    unfolding extract_all_text_def by (rule for_each_skip)
  from assms(1,2) nb have "save_selected_articles (get_entry_by_path zim) [p] =
           (lit ''Title: '' @ title e @ newlines @ strip_tags article @ newlines, None)"
    by (simp add: save_selected_articles_def save_selected_article_def article_record_def)
  with a b show ?thesis by blast
qed

text \<open>
  An archive with the page \<open><html><body>Hi</body></html>\<close> and the note \<open><p>Hi</p>\<close>:
  the bulk text holds the page only, the selected note comes out as \<open>Hi\<close>.
\<close>

theorem no_body_asymmetry_witness:
  "get_entry_by_path [home_entry, note_entry] (lit ''A/note'') = Inr (Some note_entry) \<and>
   decode_utf8 Ignore (content note_entry) = Inr (lit ''<p>Hi</p>'') \<and>
   \<not> py_in (lit ''<body'') (lit ''<p>Hi</p>'') \<and>
   extract_all_text [home_entry, note_entry] (Some (lit ''A'')) = (lit ''Hi'' @ newlines, None) \<and>
   save_selected_articles (get_entry_by_path [home_entry, note_entry]) [lit ''A/note''] =
     (lit ''Title: Note'' @ newlines @ lit ''Hi'' @ newlines, None)"
proof -
  have h1: "get_entry_by_path [home_entry, note_entry] (lit ''A/note'') = Inr (Some note_entry)"
    by (simp add: get_entry_by_path_def home_entry_def note_entry_def lit_def)
  have h2: "decode_utf8 Ignore (content note_entry) = Inr (lit ''<p>Hi</p>'')"
    by (simp add: note_entry_def blit_def lit_def utf8_next_def)
  have h3: "\<not> py_in (lit ''<body'') (lit ''<p>Hi</p>'')"
    by (simp add: lit_def startswith_def)
  have h4: "extract_all_text [home_entry] (Some (lit ''A'')) = (lit ''Hi'' @ newlines, None)"
    by (simp add: extract_all_text_def extract_all_text_entry_def py_startswith_def home_entry_def
          blit_def lit_def utf8_next_def startswith_def newlines_def)
  have h5: "strip_tags (lit ''<p>Hi</p>'') = lit ''Hi''" by (simp add: lit_def)
  from no_body_asymmetry[OF h1 h2 h3, of "lit ''A''" "[home_entry]" "[]"] h1 h2 h3 h4 h5
  show ?thesis by (simp add: note_entry_def lit_def)
qed

text \<open>
  C8, as the code has it.  The text-producing operations decode with \<open>errors='ignore'\<close>:
  a malformed sequence is discarded, it leaves nothing in the decoded text (with
  \<open>errors='replace'\<close> it would leave U+FFFD), and decoding always returns.  So
  \<open>extract_all_text\<close> with a string namespace never raises and writes, for each entry
  under the namespace, the body of the content decoded in this way; \<open>save_selected_articles\<close>
  raises for a path only when the lookup of that path does, and writes the content of a
  found entry decoded in this way; and every file that \<open>extract_by_mimetype\<close> writes in text
  mode holds the content of its entry decoded in this way, the only errors of that
  operation being those of the file system.
\<close>

theorem decoding_discards_and_never_raises:
  "decode_utf8 Ignore bs =
     Inr (concat (map (\<lambda>r. case r of None \<Rightarrow> [] | Some cp \<Rightarrow> [cp]) (utf8_sequences bs))) \<and>
   decode_utf8 Replace bs =
     Inr (map (\<lambda>r. case r of None \<Rightarrow> 0xFFFD | Some cp \<Rightarrow> cp) (utf8_sequences bs)) \<and>
   extract_all_text zim (Some n) =
     (concat (map (\<lambda>e. if startswith (path e) n
                         then (case body_search (discarding (content e)) of
                                 Some g \<Rightarrow> strip_tags g @ newlines
                               | None \<Rightarrow> [])
                         else []) zim),
      None) \<and>
   (\<forall>u. save_selected_article lookup u =
      (case lookup u of
         Inl err \<Rightarrow> Inl err
       | Inr None \<Rightarrow> Inr []
       | Inr (Some e) \<Rightarrow>
           Inr (article_record (title e)
                  (strip_tags (case body_search (discarding (content e)) of
                                 Some g \<Rightarrow> g
                               | None \<Rightarrow> discarding (content e)))))) \<and>
   (\<forall>u err. save_selected_article lookup u = Inl err \<longrightarrow> lookup u = Inl err) \<and>
   (\<forall>w \<in> set (fst (extract_by_mimetype fs zim d ns mt)).
      \<exists>e \<in> set zim.
        passes_filter ns mt e \<and> w = expected_file d mt e \<and>
        file_payload w =
          (if binary_mode mt then Binary (content e) else Text (discarding (content e)))) \<and>
   (\<forall>err. snd (extract_by_mimetype fs zim d ns mt) = Some err \<longrightarrow>
      mkdir_error fs d = Some err \<or> (\<exists>e \<in> set zim. refused fs (expected_file d mt e) = Some err)) \<and>
   (mkdir_error fs d = None \<and> (\<forall>e \<in> set zim. refused fs (expected_file d mt e) = None) \<longrightarrow>
      snd (extract_by_mimetype fs zim d ns mt) = None)"
proof -
  let ?text = "\<lambda>e. if startswith (path e) n
                   then (case body_search (discarding (content e)) of
                           Some g \<Rightarrow> strip_tags g @ newlines
                         | None \<Rightarrow> [])
                   else []"
  let ?ms = "map (expected_file d mt) (filter (passes_filter ns mt) zim)"
  have bulk: "extract_all_text zim (Some n) = (concat (map ?text zim), None)"
    unfolding extract_all_text_def
    by (rule for_each_all)
       (simp add: extract_all_text_entry_def py_startswith_def decode_ignore_discarding
          split: option.splits bool.splits)
  have sel: "save_selected_article lookup u =
      (case lookup u of
         Inl err \<Rightarrow> Inl err
       | Inr None \<Rightarrow> Inr []
       | Inr (Some e) \<Rightarrow>
           Inr (article_record (title e)
                  (strip_tags (case body_search (discarding (content e)) of
                                 Some g \<Rightarrow> g
                               | None \<Rightarrow> discarding (content e)))))" for u
    by (simp add: save_selected_article_def decode_ignore_discarding
          split: sum.splits option.splits)
  have only_lookup: "lookup u = Inl err" if "save_selected_article lookup u = Inl err" for u err
    using that by (simp add: sel split: sum.splits option.splits)
  have files: "\<exists>e \<in> set zim.
        passes_filter ns mt e \<and> w = expected_file d mt e \<and>
        file_payload w =
          (if binary_mode mt then Binary (content e) else Text (discarding (content e)))"
    if "w \<in> set (fst (extract_by_mimetype fs zim d ns mt))" for w
  proof (cases "mkdir_error fs d")
    case None
    with that have "w \<in> set (fst (until_refused fs ?ms))" by (simp add: extract_by_mimetype_eq)
    with until_refused_subset have "w \<in> set ?ms" by blast
    then obtain e where "e \<in> set zim" "passes_filter ns mt e" "w = expected_file d mt e"
      by auto
    then show ?thesis by (auto simp: expected_file_def)
  next
    case (Some err)
    with that show ?thesis by (simp add: extract_by_mimetype_eq)
  qed
  have errs: "mkdir_error fs d = Some err \<or>
      (\<exists>e \<in> set zim. refused fs (expected_file d mt e) = Some err)"
    if "snd (extract_by_mimetype fs zim d ns mt) = Some err" for err
  proof (cases "mkdir_error fs d")
    case None
    with that have "snd (until_refused fs ?ms) = Some err" by (simp add: extract_by_mimetype_eq)
    then have "\<exists>w \<in> set ?ms. refused fs w = Some err" by (rule until_refused_error)
    then show ?thesis by auto
  next
    case (Some err')
    with that show ?thesis by (simp add: extract_by_mimetype_eq)
  qed
  have smooth: "snd (extract_by_mimetype fs zim d ns mt) = None"
    if "mkdir_error fs d = None" and "\<forall>e \<in> set zim. refused fs (expected_file d mt e) = None"
  proof -
    from that(2) have "\<forall>w \<in> set ?ms. refused fs w = None" by auto
    then have "until_refused fs ?ms = (?ms, None)" by (rule until_refused_none)
    with that(1) show ?thesis by (simp add: extract_by_mimetype_eq)
  qed
  from bulk sel only_lookup files errs smooth decode_ignore_sequences decode_replace_sequences
  show ?thesis by blast
qed

text \<open>
  The content \<open><body>a\<close>, the byte \<open>0xFF\<close>, \<open>b</body>\<close> in the three operations.
\<close>

theorem decoding_discards_and_never_raises_witness:
  "utf8_sequences [0xC3, 0xA9, 0xFF, 0x62] = [Some 0xE9, None, Some 0x62] \<and>
   decode_utf8 Ignore [0xC3, 0xA9, 0xFF, 0x62] = Inr [0xE9, 0x62] \<and>
   decode_utf8 Replace [0xC3, 0xA9, 0xFF, 0x62] = Inr [0xE9, 0xFFFD, 0x62] \<and>
   discarding (content bad_entry) = lit ''<body>ab</body>'' \<and>
   extract_all_text [bad_entry] (Some (lit ''A'')) = (lit ''ab'' @ newlines, None) \<and>
   save_selected_article (\<lambda>u. Inr (Some bad_entry)) (lit ''A/bad'') =
     Inr (article_record (lit ''Bad'') (lit ''ab'')) \<and>
   mkdir_error obliging_fs (lit ''out'') = None \<and>
   snd (extract_by_mimetype obliging_fs [bad_entry] (lit ''out'') None (lit ''text/'')) = None"
proof -
  have s: "utf8_sequences [0xC3, 0xA9, 0xFF, 0x62] = [Some 0xE9, None, Some 0x62]"
    by (simp add: utf8_next_def is_continuation_def)
  have d: "discarding (content bad_entry) = lit ''<body>ab</body>''"
    by (simp add: discarding_def bad_entry_def blit_def lit_def utf8_next_def)
  have b: "body_search (lit ''<body>ab</body>'') = Some (lit ''ab'')"
    by (simp add: lit_def startswith_def)
  have t: "strip_tags (lit ''ab'') = lit ''ab''" by (simp add: lit_def)
  have p: "startswith (path bad_entry) (lit ''A'')" "title bad_entry = lit ''Bad''"
    by (simp_all add: bad_entry_def startswith_def lit_def)
  have m: "mkdir_error obliging_fs (lit ''out'') = None" by (simp add: obliging_fs_def)
  have r: "\<forall>w. refused obliging_fs w = None" by (simp add: refused_def obliging_fs_def)
  from decoding_discards_and_never_raises
         [of "[0xC3, 0xA9, 0xFF, 0x62]" "[bad_entry]" "lit ''A''" "\<lambda>u. Inr (Some bad_entry)"
             obliging_fs "lit ''out''" None "lit ''text/''"]
       s d b t p m r
  show ?thesis by simp
qed

text \<open>
  The invalid byte is dropped in all three operations: the text written is \<open>ab\<close>, the
  file written in text mode holds \<open><body>ab</body>\<close>, and no replacement character
  appears anywhere.
\<close>

theorem invalid_byte_is_discarded:
  "decode_utf8 Ignore [0x61, 0xFF, 0x62] = Inr [0x61, 0x62] \<and>
   decode_utf8 Replace [0x61, 0xFF, 0x62] = Inr [0x61, 0xFFFD, 0x62] \<and>
   extract_all_text [bad_entry] (Some (lit ''A'')) = (lit ''ab'' @ newlines, None) \<and>
   save_selected_articles (get_entry_by_path [bad_entry]) [lit ''A/bad''] =
     (lit ''Title: Bad'' @ newlines @ lit ''ab'' @ newlines, None) \<and>
   extract_by_mimetype obliging_fs [bad_entry] (lit ''out'') None (lit ''text/html'') =
     ([\<lparr>file_dir = lit ''out'', file_name = lit ''A_bad.html'',
        file_payload = Text (lit ''<body>ab</body>'')\<rparr>], None)"
  by (simp add: utf8_next_def save_selected_articles_def save_selected_article_def
        get_entry_by_path_def bad_entry_def lit_def blit_def article_record_def startswith_def
        extract_all_text_def extract_all_text_entry_def py_startswith_def newlines_def
        extract_by_mimetype_def extract_entry_def determine_mimetype_def split_last_def
        sanitize_filename_def unsafe_chars_def obliging_fs_def write_file_def)

text \<open>
  C3.  \<open>save_selected_articles\<close> takes the paths in the order given, but a path that the
  archive does not have is not skipped: \<open>get_entry_by_path\<close> raises \<open>KeyError\<close> for it
  (that is, when no entry has the path, nor the path without its leading namespace),
  nothing in \<open>save_selected_articles\<close> catches the exception, and the paths after it are
  never looked up: the output holds what was written for the paths before it and the
  operation ends with an error.  The test \<open>if entry:\<close> that was to skip such a path is
  never reached.
\<close>

theorem missing_path_raises_KeyError:
  "((get_entry_by_path zim p = Inl KeyError) =
      ((\<forall>e \<in> set zim. path e \<noteq> p) \<and> (\<forall>e \<in> set zim. parse_long_path p \<noteq> Some (path e)))) \<and>
   (get_entry_by_path zim p = Inl KeyError \<longrightarrow>
      save_selected_articles (get_entry_by_path zim) (p # rest) = ([], Some KeyError) \<and>
      fst (save_selected_articles (get_entry_by_path zim) (before @ p # rest)) =
        fst (save_selected_articles (get_entry_by_path zim) before) \<and>
      snd (save_selected_articles (get_entry_by_path zim) (before @ p # rest)) \<noteq> None)"
proof -
  have "save_selected_articles (get_entry_by_path zim) (p # rest) = ([], Some KeyError) \<and>
      fst (save_selected_articles (get_entry_by_path zim) (before @ p # rest)) =
        fst (save_selected_articles (get_entry_by_path zim) before) \<and>
      snd (save_selected_articles (get_entry_by_path zim) (before @ p # rest)) \<noteq> None"
    if "get_entry_by_path zim p = Inl KeyError"
    using that
    by (auto simp: save_selected_articles_def save_selected_article_def for_each_append
             split: prod.splits option.splits)
  then show ?thesis using get_entry_by_path_KeyError by blast
qed

text \<open>
  The archive holds \<open>A/home.html\<close> only.  Asked for \<open>A/missing\<close> and then \<open>A/home.html\<close>,
  the operation writes nothing and ends with \<open>KeyError\<close>; asked for \<open>A/home.html\<close> alone
  it writes the article.
\<close>

theorem missing_path_raises_KeyError_witness:
  "list_all (\<lambda>e. path e \<noteq> lit ''A/missing'') [home_entry] \<and>
   parse_long_path (lit ''A/missing'') = Some (lit ''missing'') \<and>
   get_entry_by_path [home_entry] (lit ''A/missing'') = Inl KeyError \<and>
   save_selected_articles (get_entry_by_path [home_entry])
     [lit ''A/missing'', lit ''A/home.html''] = ([], Some KeyError) \<and>
   save_selected_articles (get_entry_by_path [home_entry]) [lit ''A/home.html''] =
     (lit ''Title: Home'' @ newlines @ lit ''Hi'' @ newlines, None)"
proof -
  have h: "\<forall>e \<in> set [home_entry]. path e \<noteq> lit ''A/missing''"
    by (simp add: home_entry_def lit_def)
  have q: "parse_long_path (lit ''A/missing'') = Some (lit ''missing'')"
    by (simp add: parse_long_path_def lit_def)
  have h2: "\<forall>e \<in> set [home_entry]. parse_long_path (lit ''A/missing'') \<noteq> Some (path e)"
    by (simp add: q) (simp add: home_entry_def lit_def)
  have f: "save_selected_articles (get_entry_by_path [home_entry]) [lit ''A/home.html''] =
     (lit ''Title: Home'' @ newlines @ lit ''Hi'' @ newlines, None)"
    by (simp add: save_selected_articles_def save_selected_article_def get_entry_by_path_def
          home_entry_def lit_def blit_def utf8_next_def startswith_def article_record_def
          newlines_def)
  from missing_path_raises_KeyError
         [of "[home_entry]" "lit ''A/missing''" "[lit ''A/home.html'']" "[]"] h h2 q f
  show ?thesis by simp
qed

text \<open>
  The second lookup of libzim: a path with a namespace in front of the path of an entry
  is found.
\<close>

lemma long_path_is_found:
  "get_entry_by_path [home_entry] (lit ''C/A/home.html'') = Inr (Some home_entry)"
  by (simp add: get_entry_by_path_def parse_long_path_def home_entry_def lit_def)

text \<open>
  Had the lookup returned a falsy value for a missing path, the loop would have skipped
  it and gone on, in the order of the input and with repeated paths repeated.
\<close>

lemma falsy_lookup_is_skipped:
  "lookup p = Inr None \<Longrightarrow>
   save_selected_articles lookup (xs @ p # ys) = save_selected_articles lookup (xs @ ys)"
  unfolding save_selected_articles_def
  by (rule for_each_skip) (simp add: save_selected_article_def)

section \<open>Claims about namespace selection\<close>

text \<open>
  C4.  \<open>set_namespace\<close> upper-cases and trims its input.  When the result is a key of the
  registry, what it returns is not the namespace code but the description stored under
  that key (\<open>namespaces[selected_ns_upper]\<close>): for \<open>A\<close> the string \<open>Article\<close>, which as
  the namespace argument of the extraction operations selects no entry of namespace \<open>A\<close>.
\<close>

theorem set_namespace_yields_description:
  assumes "map_of namespace_descriptions k = Some d"
      and "py_strip (py_upper toupper s) = k"
  shows "set_namespace toupper zim s = Inr (Some d)"
  using assms known_key[OF assms(1), of zim] known_key_not_pseudo[OF assms(1)]
  by (simp add: set_namespace_def)

theorem set_namespace_yields_description_witness:
  "map_of namespace_descriptions (lit ''A'') = Some (lit ''Article'') \<and>
   py_strip (py_upper ascii_toupper (lit '' a '')) = lit ''A'' \<and>
   set_namespace ascii_toupper [home_entry] (lit '' a '') = Inr (Some (lit ''Article'')) \<and>
   set_namespace ascii_toupper [home_entry] (lit ''A'') = Inr (Some (lit ''Article''))"
proof -
  have h1: "map_of namespace_descriptions (lit ''A'') = Some (lit ''Article'')"
    by (simp add: namespace_descriptions_def lit_def)
  have h2: "py_strip (py_upper ascii_toupper (lit '' a '')) = lit ''A''"
    by (simp add: py_strip_def py_upper_def ascii_toupper_def py_isspace_def lit_def)
  have h3: "py_strip (py_upper ascii_toupper (lit ''A'')) = lit ''A''"
    by (simp add: py_strip_def py_upper_def ascii_toupper_def py_isspace_def lit_def)
  from set_namespace_yields_description[OF h1 h2]
       set_namespace_yields_description[OF h1 h3] h1 h2
  show ?thesis by simp
qed

text \<open>
  The selector \<open>Article\<close> writes nothing for an entry of namespace \<open>A\<close>, where the
  selector \<open>A\<close> writes it.
\<close>

lemma description_selects_nothing:
  "extract_entry obliging_fs (lit ''out'') (Some (lit ''Article'')) (lit ''text/html'')
     home_entry = Inr [] \<and>
   extract_entry obliging_fs (lit ''out'') (Some (lit ''A'')) (lit ''text/html'') home_entry =
     Inr [\<lparr>file_dir = lit ''out'', file_name = lit ''A_home.html.html'',
           file_payload = Text (lit ''<html><body>Hi</body></html>'')\<rparr>]"
  by (simp add: extract_entry_def determine_mimetype_def startswith_def lit_def blit_def
        home_entry_def get_namespace_description_def namespace_descriptions_def
        split_last_def sanitize_filename_def unsafe_chars_def utf8_next_def
        obliging_fs_def write_file_def)

text \<open>
  The match is not case-insensitive either: only the input is upper-cased, so the key
  \<open>z\<close> that \<open>view_all_namespaces\<close> found in the archive cannot be selected.
\<close>

lemma lower_case_key_unselectable:
  "get_namespaces [z_entry] (lit ''z'') = Some (lit ''Unknown_z'') \<and>
   set_namespace ascii_toupper [z_entry] (lit ''z'') = Inl ValueError"
  by (simp add: set_namespace_def get_namespaces_def view_all_namespaces_def z_entry_def
        namespace_descriptions_def lit_def map_add_def py_strip_def py_upper_def
        ascii_toupper_def py_isspace_def)

section \<open>Claims about the build\<close>

text \<open>
  C9.  Let a file exist at \<open>output_path\<close>, let staging succeed and let the first
  \<open>os.rename\<close> to \<open>output_path + ".backup"\<close> fail with \<open>PermissionError\<close>.  Then the rename
  is attempted exactly once more, after one sleep of two seconds: whatever happens next,
  the call makes these two rename attempts and this one pause and no others.  If the
  second attempt fails too, the build stops there: the old archive is still at
  \<open>output_path\<close>, only the cleanup of the temp file follows, and the call raises, namely
  the error of the second attempt unless the cleanup itself fails, whose error then takes
  its place.  If the second attempt succeeds, the build goes on to move the staged file.
\<close>

theorem rename_retried_exactly_once:
  assumes "files w out = Some b"
      and "faults w = None # Some PermissionError # f # rest"
  shows "case create_zim_file out arts m w of
           (r, w') \<Rightarrow>
             renames_and_sleeps (trace w') =
               renames_and_sleeps (trace w) @
               [Rename out (out @ lit ''.backup''), Sleep 2,
                Rename out (out @ lit ''.backup'')] \<and>
             (\<forall>e. f = Some e \<longrightarrow>
                r = Some (case rest of Some e' # _ \<Rightarrow> e' | _ \<Rightarrow> e) \<and>
                files w' out = Some b \<and>
                trace w' = trace w @
                  [Create (out @ lit ''.tmp''),
                   Rename out (out @ lit ''.backup''), Sleep 2,
                   Rename out (out @ lit ''.backup''),
                   Remove (out @ lit ''.tmp'')]) \<and>
             (f = None \<longrightarrow>
                take 5 (drop (length (trace w)) (trace w')) =
                  [Create (out @ lit ''.tmp''),
                   Rename out (out @ lit ''.backup''), Sleep 2,
                   Rename out (out @ lit ''.backup''),
                   Move (out @ lit ''.tmp'') out])"
  using assms
  by (auto simp: fs_defs suffix_facts Let_def renames_and_sleeps_def
           split: option.splits list.splits prod.splits if_splits)

text \<open>The locked archive: two attempts, one pause, and the \<open>PermissionError\<close> comes out.\<close>

theorem rename_retried_exactly_once_witness:
  "files locked_world demo_out = Some (Data [1, 2, 3]) \<and>
   faults locked_world = [None, Some PermissionError, Some PermissionError] \<and>
   fst (create_zim_file demo_out [] demo_main locked_world) = Some PermissionError \<and>
   files (snd (create_zim_file demo_out [] demo_main locked_world)) demo_out =
     Some (Data [1, 2, 3]) \<and>
   trace (snd (create_zim_file demo_out [] demo_main locked_world)) =
     [Create (demo_out @ lit ''.tmp''),
      Rename demo_out (demo_out @ lit ''.backup''), Sleep 2,
      Rename demo_out (demo_out @ lit ''.backup''),
      Remove (demo_out @ lit ''.tmp'')]"
proof -
  have h1: "files locked_world demo_out = Some (Data [1, 2, 3])"
    by (simp add: locked_world_def)
  have h2: "faults locked_world = None # Some PermissionError # Some PermissionError # []"
    by (simp add: locked_world_def)
  have h3: "trace locked_world = []" by (simp add: locked_world_def)
  from rename_retried_exactly_once[OF h1 h2, of "[]" demo_main] h1 h2 h3 show ?thesis
    by (simp split: prod.splits)
qed

text \<open>A first failure that is no \<open>PermissionError\<close> is not retried.\<close>

lemma other_error_not_retried:
  assumes "files w out = Some b" and "faults w = None # Some e # rest"
      and "e \<noteq> PermissionError"
  shows "renames_and_sleeps (trace (snd (create_zim_file out arts m w))) =
           renames_and_sleeps (trace w) @ [Rename out (out @ lit ''.backup'')]"
  using assms
  by (auto simp: fs_defs suffix_facts Let_def renames_and_sleeps_def
           split: option.splits list.splits prod.splits if_splits)

text \<open>
  C1, as the code has it.  When staging into \<open>output_path + ".tmp"\<close> fails, the call
  raises and every file other than the temp file is as it was before the call: the file
  at \<open>output_path\<close> is untouched, and so is \<open>output_path + ".backup"\<close>, which is neither
  created nor removed.  The temp file is gone afterwards unless the \<open>os.remove\<close> of the
  cleanup fails.
\<close>

theorem staging_failure_leaves_other_files:
  assumes "faults w = Some e # rest"
  shows "case create_zim_file out arts m w of
           (r, w') \<Rightarrow>
             r \<noteq> None \<and>
             files w' out = files w out \<and>
             files w' (out @ lit ''.backup'') = files w (out @ lit ''.backup'') \<and>
             (\<forall>p. p \<noteq> out @ lit ''.tmp'' \<longrightarrow> files w' p = files w p) \<and>
             ((case rest of Some e' # _ \<Rightarrow> False | _ \<Rightarrow> True) \<longrightarrow>
                files w' (out @ lit ''.tmp'') = None)"
  using assms
  by (auto simp: fs_defs suffix_facts Let_def
           split: option.splits list.splits prod.splits if_splits)

text \<open>
  The archive writer fails and leaves an unfinished temp file: the cleanup removes it,
  the old archive stays, and there is no backup file.
\<close>

theorem staging_failure_leaves_other_files_witness:
  "faults broken_world = [Some RuntimeError] \<and>
   fst (create_zim_file demo_out [] demo_main broken_world) = Some RuntimeError \<and>
   files (snd (create_zim_file demo_out [] demo_main broken_world)) demo_out =
     Some (Data [1, 2, 3]) \<and>
   files (snd (create_zim_file demo_out [] demo_main broken_world)) (demo_out @ lit ''.tmp'') =
     None \<and>
   files (snd (create_zim_file demo_out [] demo_main broken_world))
     (demo_out @ lit ''.backup'') = None \<and>
   trace (snd (create_zim_file demo_out [] demo_main broken_world)) =
     [Create (demo_out @ lit ''.tmp''), Remove (demo_out @ lit ''.tmp'')]"
proof -
  have h: "faults broken_world = Some RuntimeError # []" by (simp add: broken_world_def)
  have t: "trace (snd (create_zim_file demo_out [] demo_main broken_world)) =
     [Create (demo_out @ lit ''.tmp''), Remove (demo_out @ lit ''.tmp'')]"
    and r: "fst (create_zim_file demo_out [] demo_main broken_world) = Some RuntimeError"
    by (simp_all add: broken_world_def fs_defs Let_def)
  have f: "files broken_world demo_out = Some (Data [1, 2, 3])"
     "files broken_world (demo_out @ lit ''.backup'') = None"
    by (simp_all add: broken_world_def suffix_facts)
  from staging_failure_leaves_other_files[OF h, of demo_out "[]" demo_main] h t r f
  show ?thesis by (simp split: prod.splits)
qed

text \<open>
  A backup file can be there before the call.  The directory holds the old archive and
  nothing else.  A first build stages, renames the old archive to the backup, then fails
  to move the staged file: it raises and the backup is left behind.  The staging of the
  next build fails: that call raises too, and the backup file is still on disk after it.
\<close>

theorem stale_backup_survives_staging_failure:
  "files clean_world (demo_out @ lit ''.backup'') = None \<and>
   fst (create_zim_file demo_out [] demo_main clean_world) = Some OSError \<and>
   files after_failed_swap (demo_out @ lit ''.backup'') = Some (Data [1, 2, 3]) \<and>
   faults after_failed_swap = [Some OSError] \<and>
   fst (stage (demo_out @ lit ''.tmp'') [] demo_main after_failed_swap) = Some OSError \<and>
   fst (create_zim_file demo_out [] demo_main after_failed_swap) = Some OSError \<and>
   files (snd (create_zim_file demo_out [] demo_main after_failed_swap))
     (demo_out @ lit ''.backup'') = Some (Data [1, 2, 3])"
  by (simp add: after_failed_swap_def clean_world_def demo_out_def fs_defs lit_def Let_def)

end
